theory Spec2Isabelle
  imports Complex_Main
begin

section \<open>Python floats\<close>

text \<open>
  The module \<^verbatim>\<open>periodicity/periodogram.py\<close> holds three functions, \<^verbatim>\<open>lombscargle\<close>,
  \<^verbatim>\<open>window\<close> and \<^verbatim>\<open>wavelet\<close>. Their own arithmetic is on Python floats, which are
  IEEE 754 binary64 numbers: a finite value, one of the two infinities, or \<^verbatim>\<open>nan\<close>.
  A finite value is carried as the real number it denotes; the two zeros, which compare
  equal, are the one value \<open>Finite 0\<close>.
\<close>

datatype pyfloat = Finite real | PosInf | NegInf | NaN

fun f_neg :: "pyfloat \<Rightarrow> pyfloat" where
  "f_neg (Finite y) = Finite (- y)"
| "f_neg PosInf = NegInf"
| "f_neg NegInf = PosInf"
| "f_neg NaN = NaN"

text \<open>
  Rounding a real to the nearest binary64 number, ties to the even significand.
  Around \<open>x\<close> the binary64 numbers are the multiples of \<open>2 ^ ulp_exponent x\<close>: 52 binary
  places below the leading bit of \<open>x\<close>, and never below \<open>2 ^ -1074\<close>, the spacing of the
  subnormal numbers. A result of magnitude \<open>2 ^ 1024\<close> or more is an infinity.
\<close>

definition pow2 :: "int \<Rightarrow> real" where
  "pow2 e = 2 powr real_of_int e"

definition round_even :: "real \<Rightarrow> int" where
  "round_even q =
     (let f = \<lfloor>q\<rfloor>
      in if q - of_int f < 1 / 2 then f
         else if 1 / 2 < q - of_int f then f + 1
         else if even f then f else f + 1)"

definition ulp_exponent :: "real \<Rightarrow> int" where
  "ulp_exponent x = max \<lfloor>log 2 \<bar>x\<bar>\<rfloor> (- 1022) - 52"

definition round_double :: "real \<Rightarrow> pyfloat" where
  "round_double x =
     (if x = 0 then Finite 0
      else let e = ulp_exponent x;
               y = real_of_int (round_even (x / pow2 e)) * pow2 e
           in if pow2 1024 \<le> \<bar>y\<bar> then (if 0 < x then PosInf else NegInf) else Finite y)"

text \<open>
  The exceptions that the module's own statements raise: the \<^verbatim>\<open>assert\<close> of
  \<^verbatim>\<open>lombscargle\<close>, with its message, and the float division of Python.
\<close>

datatype py_error = AssertionError string | ZeroDivisionError

text \<open>
  Python's \<^verbatim>\<open>a / b\<close> on floats: a zero divisor raises, whatever the dividend is;
  otherwise the quotient is the IEEE one, rounded, and an overflow gives an infinity
  (Python raises no \<^verbatim>\<open>OverflowError\<close> on float division). \<^verbatim>\<open>a * b\<close> never raises.
\<close>

fun py_truediv :: "pyfloat \<Rightarrow> pyfloat \<Rightarrow> py_error + pyfloat" where
  "py_truediv a (Finite b) =
     (if b = 0 then Inl ZeroDivisionError
      else Inr (case a of
                  Finite v \<Rightarrow> round_double (v / b)
                | PosInf \<Rightarrow> if 0 < b then PosInf else NegInf
                | NegInf \<Rightarrow> if 0 < b then NegInf else PosInf
                | NaN \<Rightarrow> NaN))"
| "py_truediv a PosInf = Inr (case a of Finite v \<Rightarrow> Finite 0 | _ \<Rightarrow> NaN)"
| "py_truediv a NegInf = Inr (case a of Finite v \<Rightarrow> Finite 0 | _ \<Rightarrow> NaN)"
| "py_truediv a NaN = Inr NaN"

fun py_mul :: "pyfloat \<Rightarrow> pyfloat \<Rightarrow> pyfloat" where
  "py_mul NaN b = NaN"
| "py_mul a NaN = NaN"
| "py_mul (Finite a) (Finite b) = round_double (a * b)"
| "py_mul (Finite a) PosInf = (if a = 0 then NaN else if 0 < a then PosInf else NegInf)"
| "py_mul (Finite a) NegInf = (if a = 0 then NaN else if 0 < a then NegInf else PosInf)"
| "py_mul PosInf (Finite b) = (if b = 0 then NaN else if 0 < b then PosInf else NegInf)"
| "py_mul NegInf (Finite b) = (if b = 0 then NaN else if 0 < b then NegInf else PosInf)"
| "py_mul PosInf PosInf = PosInf"
| "py_mul PosInf NegInf = NegInf"
| "py_mul NegInf PosInf = NegInf"
| "py_mul NegInf NegInf = PosInf"

section \<open>The libraries\<close>

text \<open>
  numpy, astropy and the wavelets package are not part of the repository. Each is a
  parameter of the model: a record of the functions the module calls, every one of which
  may raise (\<open>Inl\<close>). A value of type \<open>'v\<close> is any Python object the module only passes
  on: the arrays \<^verbatim>\<open>t\<close>, \<^verbatim>\<open>x\<close>, \<^verbatim>\<open>dx\<close> and \<^verbatim>\<open>fap_level\<close> of the caller, well-formed or
  not, and the arrays and scalars the libraries return. \<open>'e\<close> is the type of the
  exceptions the libraries raise.

  Of numpy the module calls \<^verbatim>\<open>np.diff\<close>, \<^verbatim>\<open>np.median\<close>, the conversion \<^verbatim>\<open>float(...)\<close>
  of the scalar \<^verbatim>\<open>np.median\<close> returns, and the method \<^verbatim>\<open>a.max()\<close> of the power array.
\<close>

record ('v, 'e) numpy =
  np_diff :: "'v \<Rightarrow> 'e + 'v"
  np_median :: "'v \<Rightarrow> 'e + 'v"
  py_float :: "'v \<Rightarrow> 'e + pyfloat"
  np_max :: "'v \<Rightarrow> 'e + 'v"

text \<open>
  A keyword argument is a value of \<open>kwarg\<close>; a call passes the list of the keywords
  written at the call site, in the order written, so that a keyword the source leaves
  out (and the library fills with its default) is absent from the list. The signal of a
  Lomb-Scargle model is an array or, in \<^verbatim>\<open>window\<close>, the literal \<^verbatim>\<open>1\<close>.
\<close>

datatype 'v signal = Array 'v | Scalar real

datatype 'v kwarg =
    Dy "'v option"
  | Normalization string
  | Fit_mean bool
  | Center_data bool
  | Samples_per_peak pyfloat
  | Minimum_frequency pyfloat
  | Maximum_frequency pyfloat
  | Method string
  | Dt pyfloat
  | Mask_coi bool
  | Unbias bool

record ('v, 'ls, 'e) astropy =
  LombScargle :: "'v \<Rightarrow> 'v signal \<Rightarrow> 'v kwarg list \<Rightarrow> 'e + 'ls"
  autopower :: "'ls \<Rightarrow> 'v kwarg list \<Rightarrow> 'e + ('v \<times> 'v)"
  false_alarm_probability :: "'ls \<Rightarrow> 'v \<Rightarrow> 'v kwarg list \<Rightarrow> 'e + 'v"
  false_alarm_level :: "'ls \<Rightarrow> 'v \<Rightarrow> 'v kwarg list \<Rightarrow> 'e + 'v"

record ('v, 'wa, 'e) wavelets =
  WaveletAnalysis :: "'v \<Rightarrow> 'v \<Rightarrow> 'v kwarg list \<Rightarrow> 'e + 'wa"
  fourier_periods :: "'wa \<Rightarrow> 'e + 'v"
  wavelet_power :: "'wa \<Rightarrow> 'e + 'v"
  global_wavelet_spectrum :: "'wa \<Rightarrow> 'e + 'v"

text \<open>
  How a function ends: with a value, or with an exception of its own statements
  (\<open>PyError\<close>), of a numpy call (\<open>NumpyError\<close>) or of a call into the wrapped library,
  astropy or wavelets (\<open>LibraryError\<close>); the last two carry the exception as it was
  raised. A run of a function is the list of the calls it made into the wrapped library,
  in order, and how it ended.
\<close>

datatype 'e error = PyError py_error | NumpyError 'e | LibraryError 'e

datatype ('v, 'ls) ls_call =
    Call_LombScargle 'v "'v signal" "'v kwarg list"
  | Call_autopower 'ls "'v kwarg list"
  | Call_false_alarm_probability 'ls 'v "'v kwarg list"
  | Call_false_alarm_level 'ls 'v "'v kwarg list"

datatype ('v, 'wa) wa_call =
    Call_WaveletAnalysis 'v 'v "'v kwarg list"
  | Get_fourier_periods 'wa
  | Get_wavelet_power 'wa
  | Get_global_wavelet_spectrum 'wa

type_synonym ('c, 'e, 'a) run = "'c list \<times> ('e error + 'a)"

definition ret :: "'a \<Rightarrow> ('c, 'e, 'a) run" where
  "ret v = ([], Inr v)"

definition raise :: "py_error \<Rightarrow> ('c, 'e, 'a) run" where
  "raise err = ([], Inl (PyError err))"

definition step :: "'e error + 'a \<Rightarrow> ('c, 'e, 'a) run" where
  "step r = ([], r)"

definition np_call :: "'e + 'a \<Rightarrow> ('c, 'e, 'a) run" where
  "np_call r = ([], case r of Inl e \<Rightarrow> Inl (NumpyError e) | Inr v \<Rightarrow> Inr v)"

definition lib_call :: "'c \<Rightarrow> 'e + 'a \<Rightarrow> ('c, 'e, 'a) run" where
  "lib_call c r = ([c], case r of Inl e \<Rightarrow> Inl (LibraryError e) | Inr v \<Rightarrow> Inr v)"

definition and_then :: "('c, 'e, 'a) run \<Rightarrow> ('a \<Rightarrow> ('c, 'e, 'b) run) \<Rightarrow> ('c, 'e, 'b) run" where
  "and_then m k =
     (case m of
        (tr, Inl err) \<Rightarrow> (tr, Inl err)
      | (tr, Inr v) \<Rightarrow> (case k v of (tr', r) \<Rightarrow> (tr @ tr', r)))"

definition new_LombScargle ::
  "('v, 'ls, 'e) astropy \<Rightarrow> 'v \<Rightarrow> 'v signal \<Rightarrow> 'v kwarg list \<Rightarrow>
   (('v, 'ls) ls_call, 'e, 'ls) run" where
  "new_LombScargle lib t y kw = lib_call (Call_LombScargle t y kw) (LombScargle lib t y kw)"

definition do_autopower ::
  "('v, 'ls, 'e) astropy \<Rightarrow> 'ls \<Rightarrow> 'v kwarg list \<Rightarrow> (('v, 'ls) ls_call, 'e, 'v \<times> 'v) run" where
  "do_autopower lib ls kw = lib_call (Call_autopower ls kw) (autopower lib ls kw)"

definition do_false_alarm_probability ::
  "('v, 'ls, 'e) astropy \<Rightarrow> 'ls \<Rightarrow> 'v \<Rightarrow> 'v kwarg list \<Rightarrow> (('v, 'ls) ls_call, 'e, 'v) run" where
  "do_false_alarm_probability lib ls z kw =
     lib_call (Call_false_alarm_probability ls z kw) (false_alarm_probability lib ls z kw)"

definition do_false_alarm_level ::
  "('v, 'ls, 'e) astropy \<Rightarrow> 'ls \<Rightarrow> 'v \<Rightarrow> 'v kwarg list \<Rightarrow> (('v, 'ls) ls_call, 'e, 'v) run" where
  "do_false_alarm_level lib ls lv kw =
     lib_call (Call_false_alarm_level ls lv kw) (false_alarm_level lib ls lv kw)"

definition new_WaveletAnalysis ::
  "('v, 'wa, 'e) wavelets \<Rightarrow> 'v \<Rightarrow> 'v \<Rightarrow> 'v kwarg list \<Rightarrow> (('v, 'wa) wa_call, 'e, 'wa) run" where
  "new_WaveletAnalysis lib d t kw =
     lib_call (Call_WaveletAnalysis d t kw) (WaveletAnalysis lib d t kw)"

definition get_fourier_periods ::
  "('v, 'wa, 'e) wavelets \<Rightarrow> 'wa \<Rightarrow> (('v, 'wa) wa_call, 'e, 'v) run" where
  "get_fourier_periods lib wa = lib_call (Get_fourier_periods wa) (fourier_periods lib wa)"

definition get_wavelet_power ::
  "('v, 'wa, 'e) wavelets \<Rightarrow> 'wa \<Rightarrow> (('v, 'wa) wa_call, 'e, 'v) run" where
  "get_wavelet_power lib wa = lib_call (Get_wavelet_power wa) (wavelet_power lib wa)"

definition get_global_wavelet_spectrum ::
  "('v, 'wa, 'e) wavelets \<Rightarrow> 'wa \<Rightarrow> (('v, 'wa) wa_call, 'e, 'v) run" where
  "get_global_wavelet_spectrum lib wa =
     lib_call (Get_global_wavelet_spectrum wa) (global_wavelet_spectrum lib wa)"

section \<open>The three functions\<close>

text \<open>
  Each function is its body, statement by statement in the order of the source:
  \<open>and_then\<close> runs the rest of the body on the value of a statement and stops at the
  first exception. Every argument is explicit, so the defaults of the signatures
  (\<^verbatim>\<open>f0=0\<close>, \<^verbatim>\<open>n=5\<close>, \<^verbatim>\<open>psd=False\<close>, \<^verbatim>\<open>pmin=0\<close>, \<^verbatim>\<open>n_periods=1000\<close>) are values the
  caller passes, and \<open>None\<close> is Python's \<^verbatim>\<open>None\<close> for \<^verbatim>\<open>dx\<close>, \<^verbatim>\<open>fmax\<close>,
  \<^verbatim>\<open>fap_method\<close>, \<^verbatim>\<open>fap_level\<close> and \<^verbatim>\<open>pmax\<close>.

  The expression \<^verbatim>\<open>float(np.median(np.diff(t)))\<close> of line 50 of \<^verbatim>\<open>lombscargle\<close> and of
  line 114 of \<^verbatim>\<open>wavelet\<close>, three numpy calls, each of which may raise:
\<close>

definition median_diff :: "('v, 'e) numpy \<Rightarrow> 'v \<Rightarrow> 'e + pyfloat" where
  "median_diff np t =
     (case np_diff np t of
        Inl e \<Rightarrow> Inl e
      | Inr d \<Rightarrow> (case np_median np d of Inl e \<Rightarrow> Inl e | Inr m \<Rightarrow> py_float np m))"

text \<open>
  Lines 51 and 52 of \<^verbatim>\<open>lombscargle\<close>, \<^verbatim>\<open>fs = 1 / T; fmax = fs / 2\<close>, and lines 50 to 52
  together, the maximum frequency when none is given.
\<close>

definition halved_inverse :: "pyfloat \<Rightarrow> py_error + pyfloat" where
  "halved_inverse T =
     (case py_truediv (Finite 1) T of
        Inl err \<Rightarrow> Inl err
      | Inr fs \<Rightarrow> py_truediv fs (Finite 2))"

definition default_fmax :: "('v, 'e) numpy \<Rightarrow> 'v \<Rightarrow> 'e error + pyfloat" where
  "default_fmax np t =
     (case median_diff np t of
        Inl e \<Rightarrow> Inl (NumpyError e)
      | Inr T \<Rightarrow> (case halved_inverse T of Inl err \<Rightarrow> Inl (PyError err) | Inr fmax \<Rightarrow> Inr fmax))"

text \<open>
  \<^verbatim>\<open>lombscargle\<close> returns a tuple of three, four or five components.
\<close>

datatype ('v, 'ls) ls_result =
    Tuple3 'ls 'v 'v
  | Tuple4 'ls 'v 'v 'v
  | Tuple5 'ls 'v 'v 'v 'v

definition lombscargle ::
  "('v, 'e) numpy \<Rightarrow> ('v, 'ls, 'e) astropy \<Rightarrow> 'v \<Rightarrow> 'v \<Rightarrow> 'v option \<Rightarrow> pyfloat \<Rightarrow>
   pyfloat option \<Rightarrow> pyfloat \<Rightarrow> string option \<Rightarrow> 'v option \<Rightarrow> bool \<Rightarrow>
   (('v, 'ls) ls_call, 'e, ('v, 'ls) ls_result) run" where
  "lombscargle np lib t x dx f0 fmax n fap_method fap_level psd =
     and_then
       (if psd then new_LombScargle lib t (Array x) [Dy dx, Normalization ''psd'']
        else new_LombScargle lib t (Array x) [Dy dx])
       (\<lambda>ls.
     and_then
       (case fmax of None \<Rightarrow> step (default_fmax np t) | Some v \<Rightarrow> ret v)
       (\<lambda>fmax.
     and_then
       (do_autopower lib ls
          [Samples_per_peak n, Minimum_frequency f0, Maximum_frequency fmax])
       (\<lambda>(f, a).
     case fap_method of
       Some m \<Rightarrow>
         if m \<in> set [''baluev'', ''bootstrap''] then
           and_then (np_call (np_max np a))
             (\<lambda>z.
           and_then
             (do_false_alarm_probability lib ls z
                [Method m, Minimum_frequency f0, Maximum_frequency fmax, Samples_per_peak n])
             (\<lambda>fap.
           case fap_level of
             Some lv \<Rightarrow>
               and_then
                 (do_false_alarm_level lib ls lv
                    [Method m, Minimum_frequency f0, Maximum_frequency fmax,
                     Samples_per_peak n])
                 (\<lambda>fal. ret (Tuple5 ls f a fap fal))
           | None \<Rightarrow> ret (Tuple4 ls f a fap)))
         else raise (AssertionError (''Unknown FAP method '' @ m))
     | None \<Rightarrow> ret (Tuple3 ls f a))))"

definition window ::
  "('v, 'ls, 'e) astropy \<Rightarrow> 'v \<Rightarrow> pyfloat \<Rightarrow> (('v, 'ls) ls_call, 'e, 'v \<times> 'v) run" where
  "window lib t n =
     and_then (new_LombScargle lib t (Scalar 1) [Fit_mean False, Center_data False])
       (\<lambda>ls.
     and_then (do_autopower lib ls [Minimum_frequency (Finite 0), Samples_per_peak n])
       (\<lambda>(f, a). ret (f, a)))"

definition wavelet ::
  "('v, 'e) numpy \<Rightarrow> ('v, 'wa, 'e) wavelets \<Rightarrow> 'v \<Rightarrow> 'v \<Rightarrow> pyfloat \<Rightarrow> pyfloat option \<Rightarrow> int \<Rightarrow>
   (('v, 'wa) wa_call, 'e, 'wa \<times> 'v \<times> 'v \<times> 'v) run" where
  "wavelet np lib t x pmin pmax n_periods =
     and_then (np_call (median_diff np t))
       (\<lambda>dt.
     and_then (new_WaveletAnalysis lib x t [Dt dt, Mask_coi True, Unbias True])
       (\<lambda>wa.
     and_then (get_fourier_periods lib wa)
       (\<lambda>periods.
     and_then (get_wavelet_power lib wa)
       (\<lambda>wps.
     and_then (get_global_wavelet_spectrum lib wa)
       (\<lambda>gwps. ret (wa, periods, gwps, wps))))))"

section \<open>Specification vocabulary\<close>

text \<open>
  The keyword lists of the calls of \<^verbatim>\<open>lombscargle\<close>, and the maximum frequency it
  uses: the argument when one is given, the default otherwise.
\<close>

abbreviation ls_kwargs :: "'v option \<Rightarrow> bool \<Rightarrow> 'v kwarg list" where
  "ls_kwargs dx psd \<equiv> (if psd then [Dy dx, Normalization ''psd''] else [Dy dx])"

abbreviation ap_kwargs :: "pyfloat \<Rightarrow> pyfloat \<Rightarrow> pyfloat \<Rightarrow> 'v kwarg list" where
  "ap_kwargs n f0 fm \<equiv> [Samples_per_peak n, Minimum_frequency f0, Maximum_frequency fm]"

abbreviation fa_kwargs :: "string \<Rightarrow> pyfloat \<Rightarrow> pyfloat \<Rightarrow> pyfloat \<Rightarrow> 'v kwarg list" where
  "fa_kwargs m f0 fm n \<equiv>
     [Method m, Minimum_frequency f0, Maximum_frequency fm, Samples_per_peak n]"

abbreviation chosen_fmax :: "('v, 'e) numpy \<Rightarrow> 'v \<Rightarrow> pyfloat option \<Rightarrow> 'e error + pyfloat" where
  "chosen_fmax np t fmax \<equiv> (case fmax of None \<Rightarrow> default_fmax np t | Some v \<Rightarrow> Inr v)"

text \<open>
  The default maximum frequency in the words of the specification, half the inverse of
  the median sampling interval \<open>T\<close>, as Python evaluates \<^verbatim>\<open>1 / (2 * T)\<close> on floats.
\<close>

definition spec_default_fmax :: "pyfloat \<Rightarrow> py_error + pyfloat" where
  "spec_default_fmax T = py_truediv (Finite 1) (py_mul (Finite 2) T)"

text \<open>
  The intervals on which neither \<^verbatim>\<open>1 / T\<close> overflows nor \<^verbatim>\<open>fs / 2\<close> falls among the
  subnormal numbers: \<^verbatim>\<open>nan\<close>, the infinities, zero, and the binary64 numbers of magnitude
  between \<open>2 ^ -1023\<close> and \<open>2 ^ 1021\<close>.
\<close>

definition ordinary_interval :: "pyfloat \<Rightarrow> bool" where
  "ordinary_interval T =
     (case T of
        Finite x \<Rightarrow>
          round_double x = Finite x \<and>
          (x = 0 \<or> (pow2 (- 1023) \<le> \<bar>x\<bar> \<and> \<bar>x\<bar> \<le> pow2 1021))
      | _ \<Rightarrow> True)"




section \<open>numpy on one-dimensional arrays\<close>

text \<open>
  For the claims that depend on what numpy computes, numpy's four functions on the
  values a time array usually is: a one-dimensional array of dtype float64 or int64, or
  a scalar (a zero-dimensional array) of either dtype. Other Python objects are outside
  this instance; the functions above take any numpy.

  float64 arithmetic is the IEEE one: a sum is rounded, \<open>inf - inf\<close> is \<^verbatim>\<open>nan\<close>.
  int64 arithmetic wraps modulo \<open>2 ^ 64\<close>.
\<close>

datatype npvalue = F64 pyfloat | I64 int | F64Array "pyfloat list" | I64Array "int list"

fun f64_add :: "pyfloat \<Rightarrow> pyfloat \<Rightarrow> pyfloat" where
  "f64_add NaN b = NaN"
| "f64_add a NaN = NaN"
| "f64_add (Finite a) (Finite b) = round_double (a + b)"
| "f64_add PosInf NegInf = NaN"
| "f64_add NegInf PosInf = NaN"
| "f64_add PosInf b = PosInf"
| "f64_add a PosInf = PosInf"
| "f64_add NegInf b = NegInf"
| "f64_add a NegInf = NegInf"

definition f64_sub :: "pyfloat \<Rightarrow> pyfloat \<Rightarrow> pyfloat" where
  "f64_sub a b = f64_add a (f_neg b)"

fun f64_half :: "pyfloat \<Rightarrow> pyfloat" where
  "f64_half (Finite v) = round_double (v / 2)"
| "f64_half a = a"

text \<open>The order of floats, \<^verbatim>\<open>a < b\<close>: false whenever an operand is \<^verbatim>\<open>nan\<close>.\<close>

fun f64_less :: "pyfloat \<Rightarrow> pyfloat \<Rightarrow> bool" where
  "f64_less (Finite a) (Finite b) = (a < b)"
| "f64_less NegInf (Finite b) = True"
| "f64_less NegInf PosInf = True"
| "f64_less (Finite a) PosInf = True"
| "f64_less a b = False"

definition f64_le :: "pyfloat \<Rightarrow> pyfloat \<Rightarrow> bool" where
  "f64_le a b \<longleftrightarrow> f64_less a b \<or> a = b"

fun insort_f64 :: "pyfloat \<Rightarrow> pyfloat list \<Rightarrow> pyfloat list" where
  "insort_f64 v [] = [v]"
| "insort_f64 v (w # ws) = (if f64_le v w then v # w # ws else w # insort_f64 v ws)"

fun sort_f64 :: "pyfloat list \<Rightarrow> pyfloat list" where
  "sort_f64 [] = []"
| "sort_f64 (v # vs) = insort_f64 v (sort_f64 vs)"

text \<open>
  \<^verbatim>\<open>np.diff(a)[i] = a[i+1] - a[i]\<close>, empty for fewer than two elements.
\<close>

fun diff_f64 :: "pyfloat list \<Rightarrow> pyfloat list" where
  "diff_f64 (a # b # r) = f64_sub b a # diff_f64 (b # r)"
| "diff_f64 [a] = []"
| "diff_f64 [] = []"

definition wrap64 :: "int \<Rightarrow> int" where
  "wrap64 i = (i + 2 ^ 63) mod 2 ^ 64 - 2 ^ 63"

fun diff_i64 :: "int list \<Rightarrow> int list" where
  "diff_i64 (a # b # r) = wrap64 (b - a) # diff_i64 (b # r)"
| "diff_i64 [a] = []"
| "diff_i64 [] = []"

definition i64_to_f64 :: "int \<Rightarrow> pyfloat" where
  "i64_to_f64 i = round_double (real_of_int i)"

text \<open>
  \<^verbatim>\<open>np.median\<close>: \<^verbatim>\<open>nan\<close> on an empty array and on an array that holds a \<^verbatim>\<open>nan\<close>;
  otherwise the middle element of the sorted array, or for an even length the float64
  mean of the two middle elements, their rounded sum divided by two. On an int64 array
  the mean is taken in float64, each element converted first.
\<close>

definition median_f64 :: "pyfloat list \<Rightarrow> pyfloat" where
  "median_f64 a =
     (let s = sort_f64 a; k = length a div 2
      in if a = [] then NaN
         else if NaN \<in> set a then NaN
         else if odd (length a) then s ! k
         else f64_half (f64_add (s ! (k - 1)) (s ! k)))"

definition f64_max :: "pyfloat \<Rightarrow> pyfloat \<Rightarrow> pyfloat" where
  "f64_max a b = (if a = NaN \<or> b = NaN then NaN else if f64_less a b then b else a)"

fun diff_1d :: "npvalue \<Rightarrow> string + npvalue" where
  "diff_1d (F64Array xs) = Inr (F64Array (diff_f64 xs))"
| "diff_1d (I64Array xs) = Inr (I64Array (diff_i64 xs))"
| "diff_1d (F64 x) = Inl ''ValueError''"
| "diff_1d (I64 i) = Inl ''ValueError''"

fun median_1d :: "npvalue \<Rightarrow> string + npvalue" where
  "median_1d (F64Array xs) = Inr (F64 (median_f64 xs))"
| "median_1d (I64Array xs) = Inr (F64 (median_f64 (map i64_to_f64 xs)))"
| "median_1d (F64 x) = Inr (F64 x)"
| "median_1d (I64 i) = Inr (F64 (i64_to_f64 i))"

fun float_1d :: "npvalue \<Rightarrow> string + pyfloat" where
  "float_1d (F64 x) = Inr x"
| "float_1d (I64 i) = Inr (i64_to_f64 i)"
| "float_1d (F64Array [x]) = Inr x"
| "float_1d (I64Array [i]) = Inr (i64_to_f64 i)"
| "float_1d (F64Array xs) = Inl ''TypeError''"
| "float_1d (I64Array xs) = Inl ''TypeError''"

fun max_1d :: "npvalue \<Rightarrow> string + npvalue" where
  "max_1d (F64Array []) = Inl ''ValueError''"
| "max_1d (F64Array (x # xs)) = Inr (F64 (fold (\<lambda>v acc. f64_max acc v) xs x))"
| "max_1d (I64Array []) = Inl ''ValueError''"
| "max_1d (I64Array (i # is)) = Inr (I64 (fold max is i))"
| "max_1d (F64 x) = Inr (F64 x)"
| "max_1d (I64 i) = Inr (I64 i)"

definition numpy_1d :: "(npvalue, string) numpy" where
  "numpy_1d =
     \<lparr> np_diff = diff_1d, np_median = median_1d, py_float = float_1d, np_max = max_1d \<rparr>"

text \<open>
  A float64 element is a binary64 number: rounding leaves it as it is. A float is
  positive when it is a positive number or \<open>+inf\<close>.
\<close>

definition valid_f64 :: "pyfloat \<Rightarrow> bool" where
  "valid_f64 v = (case v of Finite x \<Rightarrow> round_double x = Finite x | _ \<Rightarrow> True)"

definition f64_positive :: "pyfloat \<Rightarrow> bool" where
  "f64_positive v = (case v of Finite x \<Rightarrow> 0 < x | PosInf \<Rightarrow> True | _ \<Rightarrow> False)"

definition f64_pos_double :: "pyfloat \<Rightarrow> bool" where
  "f64_pos_double v = (case v of Finite x \<Rightarrow> pow2 (- 1074) \<le> x | PosInf \<Rightarrow> True | _ \<Rightarrow> False)"

subsection \<open>Test doubles of the two wrapped libraries\<close>

text \<open>
  Two small stand-ins for the interfaces of astropy and wavelets, used only to run the
  functions on concrete inputs. The model object of each is the tuple of the
  constructor's arguments; the constructor refuses arrays of different sizes.
\<close>

fun np_size :: "npvalue \<Rightarrow> nat" where
  "np_size (F64Array xs) = length xs"
| "np_size (I64Array xs) = length xs"
| "np_size (F64 x) = 1"
| "np_size (I64 i) = 1"

definition stub_astropy ::
  "(npvalue, npvalue \<times> npvalue signal \<times> npvalue kwarg list, string) astropy" where
  "stub_astropy =
     \<lparr> LombScargle = (\<lambda>t y kw.
         case y of
           Array v \<Rightarrow> if np_size v = np_size t then Inr (t, y, kw) else Inl ''ValueError''
         | Scalar c \<Rightarrow> Inr (t, y, kw)),
       autopower = (\<lambda>ls kw.
         Inr (F64Array [Finite 0, Finite (1 / 4), Finite (1 / 2)],
              F64Array [Finite 1, Finite 3, Finite 2])),
       false_alarm_probability = (\<lambda>ls z kw. Inr (F64 (Finite (1 / 4)))),
       false_alarm_level = (\<lambda>ls lv kw. Inr lv) \<rparr>"

definition stub_wavelets ::
  "(npvalue, npvalue \<times> npvalue \<times> npvalue kwarg list, string) wavelets" where
  "stub_wavelets =
     \<lparr> WaveletAnalysis = (\<lambda>d t kw.
         if np_size d = np_size t then Inr (d, t, kw) else Inl ''ValueError''),
       fourier_periods = (\<lambda>wa. Inr (F64Array [Finite 2, Finite 4, Finite 8])),
       wavelet_power = (\<lambda>wa. Inr (F64Array [Finite 1, Finite 0, Finite 1])),
       global_wavelet_spectrum = (\<lambda>wa. Inr (F64Array [Finite 1, Finite 1, Finite 2])) \<rparr>"

section \<open>Rounding to binary64\<close>

lemma floor_log2_eqI:
  assumes "pow2 e \<le> x" and "x < pow2 (e + 1)"
  shows "\<lfloor>log 2 x\<rfloor> = e"
proof -
  have pos: "0 < x"
    using assms(1) by (smt (verit) powr_gt_zero pow2_def)
  have "of_int e \<le> log 2 x"
    using assms(1) pos by (simp add: le_log_iff pow2_def)
  moreover have "log 2 x < of_int (e + 1)"
    using assms(2) pos by (simp add: log_less_iff pow2_def)
  ultimately show ?thesis
    by (simp add: floor_eq_iff)
qed

lemma floor_log2_bounds:
  assumes "0 < x"
  shows "pow2 \<lfloor>log 2 x\<rfloor> \<le> x" and "x < pow2 (\<lfloor>log 2 x\<rfloor> + 1)"
proof -
  have "of_int \<lfloor>log 2 x\<rfloor> \<le> log 2 x"
    by simp
  then show "pow2 \<lfloor>log 2 x\<rfloor> \<le> x"
    using assms le_log_iff[of 2 x "of_int \<lfloor>log 2 x\<rfloor>"] by (simp add: pow2_def)
  have "log 2 x < of_int (\<lfloor>log 2 x\<rfloor> + 1)"
    by linarith
  then show "x < pow2 (\<lfloor>log 2 x\<rfloor> + 1)"
    using assms log_less_iff[of 2 x "of_int (\<lfloor>log 2 x\<rfloor> + 1)"] by (simp add: pow2_def)
qed

lemma round_even_of_int [simp]: "round_even (of_int n) = n"
  by (simp add: round_even_def)

lemma round_even_minus: "round_even (- q) = - round_even q"
proof (cases "q = of_int \<lfloor>q\<rfloor>")
  case True
  then obtain n where "q = of_int n" by metis
  then show ?thesis
    by (metis of_int_minus round_even_of_int)
next
  case False
  then have fl: "\<lfloor>- q\<rfloor> = - \<lfloor>q\<rfloor> - 1"
    by (smt (verit) ceiling_def ceiling_altdef minus_minus)
  have lt: "of_int \<lfloor>q\<rfloor> < q"
    using False by (smt (verit) of_int_floor_le)
  have gt: "q < of_int \<lfloor>q\<rfloor> + 1"
    by linarith
  show ?thesis
    unfolding round_even_def Let_def fl
    using lt gt by (auto simp: field_simps)
qed

lemma round_even_mono_int: "of_int n \<le> q \<Longrightarrow> n \<le> round_even q"
  unfolding round_even_def Let_def
  by (smt (verit) le_floor_iff)

lemma round_even_le_int: "q \<le> of_int n \<Longrightarrow> round_even q \<le> n"
  using round_even_mono_int[of "- n" "- q"] by (simp add: round_even_minus)

lemma ulp_exponent_ge: "- 1074 \<le> ulp_exponent x"
  by (simp add: ulp_exponent_def)

lemma ulp_exponent_minus [simp]: "ulp_exponent (- x) = ulp_exponent x"
  by (simp add: ulp_exponent_def)

lemma pow2_pos [simp]: "0 < pow2 e"
  by (simp add: pow2_def)

lemma pow2_nonneg [simp]: "0 \<le> pow2 e"
  by (simp add: pow2_def)

lemma pow2_int: "0 \<le> d \<Longrightarrow> pow2 d = real_of_int (2 ^ nat d)"
  by (simp add: pow2_def powr_real_of_int)

lemma pow2_add: "pow2 (a + b) = pow2 a * pow2 b"
  by (simp add: pow2_def powr_add)

lemma pow2_split: "pow2 j = pow2 (j - e) * pow2 e"
  by (simp add: pow2_add [symmetric])

lemma pow2_mono [simp]: "pow2 a \<le> pow2 b \<longleftrightarrow> a \<le> b"
  by (simp add: pow2_def)

lemma pow2_strict_mono [simp]: "pow2 a < pow2 b \<longleftrightarrow> a < b"
  by (simp add: pow2_def)

lemma round_double_minus: "round_double (- x) = f_neg (round_double x)"
  by (simp add: round_double_def Let_def round_even_minus)

lemma round_double_scaled_ge:
  assumes "pow2 j \<le> x" and "ulp_exponent x \<le> j"
  shows "pow2 j
           \<le> real_of_int (round_even (x / pow2 (ulp_exponent x))) * pow2 (ulp_exponent x)"
proof -
  let ?e = "ulp_exponent x"
  have "pow2 (j - ?e) * pow2 ?e \<le> x"
    using assms(1) pow2_split[of j ?e] by simp
  then have "pow2 (j - ?e) \<le> x / pow2 ?e"
    by (simp add: pos_le_divide_eq)
  then have "real_of_int (2 ^ nat (j - ?e)) \<le> x / pow2 ?e"
    using assms(2) pow2_int[of "j - ?e"] by simp
  then have "2 ^ nat (j - ?e) \<le> round_even (x / pow2 ?e)"
    by (rule round_even_mono_int)
  then have "real_of_int (2 ^ nat (j - ?e)) \<le> real_of_int (round_even (x / pow2 ?e))"
    using of_int_le_iff by blast
  then have "pow2 (j - ?e) \<le> real_of_int (round_even (x / pow2 ?e))"
    using assms(2) pow2_int[of "j - ?e"] by simp
  then have "pow2 (j - ?e) * pow2 ?e
               \<le> real_of_int (round_even (x / pow2 ?e)) * pow2 ?e"
    by (simp add: mult_right_mono)
  then show ?thesis
    using pow2_split[of j ?e] by simp
qed

lemma round_double_scaled_le:
  assumes "x \<le> pow2 j" and "ulp_exponent x \<le> j"
  shows "real_of_int (round_even (x / pow2 (ulp_exponent x))) * pow2 (ulp_exponent x)
           \<le> pow2 j"
proof -
  let ?e = "ulp_exponent x"
  have "x \<le> pow2 (j - ?e) * pow2 ?e"
    using assms(1) pow2_split[of j ?e] by simp
  then have "x / pow2 ?e \<le> pow2 (j - ?e)"
    by (simp add: pos_divide_le_eq)
  then have "x / pow2 ?e \<le> real_of_int (2 ^ nat (j - ?e))"
    using assms(2) pow2_int[of "j - ?e"] by simp
  then have "round_even (x / pow2 ?e) \<le> 2 ^ nat (j - ?e)"
    by (rule round_even_le_int)
  then have "real_of_int (round_even (x / pow2 ?e)) \<le> real_of_int (2 ^ nat (j - ?e))"
    using of_int_le_iff by blast
  then have "real_of_int (round_even (x / pow2 ?e)) \<le> pow2 (j - ?e)"
    using assms(2) pow2_int[of "j - ?e"] by simp
  then have "real_of_int (round_even (x / pow2 ?e)) * pow2 ?e
               \<le> pow2 (j - ?e) * pow2 ?e"
    by (simp add: mult_right_mono)
  then show ?thesis
    using pow2_split[of j ?e] by simp
qed

lemma floor_log2_ge: "0 < x \<Longrightarrow> pow2 k \<le> x \<Longrightarrow> k \<le> \<lfloor>log 2 x\<rfloor>"
  using le_log_iff[of 2 x "of_int k"] by (simp add: le_floor_iff pow2_def)

lemma floor_log2_le: "0 < x \<Longrightarrow> x \<le> pow2 k \<Longrightarrow> \<lfloor>log 2 x\<rfloor> \<le> k"
  using log_le_iff[of 2 x "of_int k"] by (simp add: pow2_def floor_le_iff)

lemma round_double_lower:
  assumes "pow2 k \<le> x" and "- 1074 \<le> k"
  shows "round_double x = PosInf \<or> (\<exists>y. round_double x = Finite y \<and> pow2 k \<le> y)"
proof -
  have pos: "0 < x"
    using assms(1) pow2_pos[of k] by linarith
  let ?m = "\<lfloor>log 2 x\<rfloor>"
  let ?e = "ulp_exponent x"
  let ?y = "real_of_int (round_even (x / pow2 ?e)) * pow2 ?e"
  have km: "k \<le> ?m"
    using pos assms(1) by (rule floor_log2_ge)
  have "pow2 k \<le> ?y"
  proof (cases "- 1022 \<le> ?m")
    case True
    then have e: "?e = ?m - 52"
      using pos by (simp add: ulp_exponent_def)
    have "pow2 ?m \<le> ?y"
      using floor_log2_bounds(1)[OF pos] e by (intro round_double_scaled_ge) simp_all
    moreover have "pow2 k \<le> pow2 ?m"
      using km by simp
    ultimately show ?thesis
      by linarith
  next
    case False
    then have e: "?e = - 1074"
      using pos by (simp add: ulp_exponent_def)
    show ?thesis
      using assms e by (intro round_double_scaled_ge) simp_all
  qed
  then show ?thesis
    using pos by (auto simp: round_double_def Let_def)
qed

lemma round_double_upper:
  assumes "0 < x" and "x \<le> pow2 k" and "- 1074 \<le> k" and "k \<le> 1023"
  shows "\<exists>y. round_double x = Finite y \<and> 0 \<le> y \<and> y \<le> pow2 k"
proof -
  let ?m = "\<lfloor>log 2 x\<rfloor>"
  let ?e = "ulp_exponent x"
  let ?y = "real_of_int (round_even (x / pow2 ?e)) * pow2 ?e"
  have "?m \<le> k"
    using assms(1,2) by (rule floor_log2_le)
  then have ek: "?e \<le> k"
    using assms(1,3) by (simp add: ulp_exponent_def)
  have up: "?y \<le> pow2 k"
    using assms(2) ek by (rule round_double_scaled_le)
  have "0 \<le> x / pow2 ?e"
    using assms(1) pow2_pos[of ?e] by (simp add: less_imp_le)
  then have "0 \<le> round_even (x / pow2 ?e)"
    using round_even_mono_int[of 0] by simp
  then have nonneg: "0 \<le> ?y"
    by (intro mult_nonneg_nonneg) simp_all
  have "pow2 k \<le> pow2 1023"
    using assms(4) by simp
  also have "\<dots> < pow2 1024"
    by simp
  finally have "?y < pow2 1024"
    using up by linarith
  then show ?thesis
    using assms(1) up nonneg by (auto simp: round_double_def Let_def)
qed

lemma floor_log2_less: "0 < x \<Longrightarrow> x < pow2 k \<Longrightarrow> \<lfloor>log 2 x\<rfloor> < k"
  using log_less_iff[of 2 x "of_int k"] by (simp add: pow2_def floor_less_iff)

lemma pow2_Suc: "pow2 (e + 1) = 2 * pow2 e"
  by (simp add: pow2_def powr_add)

lemma pow2_not_le_zero [simp]: "\<not> pow2 e \<le> 0"
  by (simp add: not_le)

lemma pow2_pred: "pow2 (e - 1) = pow2 e / 2"
  using pow2_Suc[of "e - 1"] by simp

lemma round_double_multiple:
  assumes "y = real_of_int k * pow2 (ulp_exponent y)" and "\<bar>y\<bar> < pow2 1024"
  shows "round_double y = Finite y"
proof (cases "y = 0")
  case True
  then show ?thesis by (simp add: round_double_def)
next
  case False
  have "y / pow2 (ulp_exponent y) = real_of_int k"
    using assms(1) by (metis nonzero_eq_divide_eq pow2_pos less_numeral_extra(3))
  then have "real_of_int (round_even (y / pow2 (ulp_exponent y))) * pow2 (ulp_exponent y) = y"
    using assms(1) by simp
  then show ?thesis
    using False assms(2) by (simp add: round_double_def Let_def)
qed

lemma representable:
  assumes y: "y = real_of_int n * pow2 E" and E: "- 1074 \<le> E"
      and n: "\<bar>n\<bar> \<le> 2 ^ 53" and fin: "\<bar>y\<bar> < pow2 1024"
  shows "round_double y = Finite y"
proof (cases "y = 0")
  case True
  then show ?thesis by (simp add: round_double_def)
next
  case False
  then have pos: "0 < \<bar>y\<bar>" by simp
  let ?m = "\<lfloor>log 2 \<bar>y\<bar>\<rfloor>"
  let ?e = "ulp_exponent y"
  have absy: "\<bar>y\<bar> = real_of_int \<bar>n\<bar> * pow2 E"
    using y by (simp add: abs_mult)
  have "\<exists>k. y = real_of_int k * pow2 ?e"
  proof (cases "\<bar>n\<bar> = 2 ^ 53")
    case True
    then have "\<bar>y\<bar> = pow2 53 * pow2 E"
      using absy by (simp add: pow2_int)
    then have ay: "\<bar>y\<bar> = pow2 (53 + E)"
      by (simp add: pow2_add)
    then have "?m = 53 + E"
      by (intro floor_log2_eqI) simp_all
    then have e: "?e = E + 1"
      using E by (simp add: ulp_exponent_def)
    have "even n"
      using True by (metis abs_minus_cancel abs_of_nonneg dvd_minus_iff even_numeral even_power
          zero_less_numeral abs_if)
    then obtain h where h: "n = 2 * h"
      by (elim evenE)
    have "y = real_of_int h * pow2 (E + 1)"
      using y h by (simp add: pow2_Suc)
    then show ?thesis
      using e by auto
  next
    case False
    then have "\<bar>n\<bar> < 2 ^ 53"
      using n by linarith
    then have "real_of_int \<bar>n\<bar> < real_of_int (2 ^ 53)"
      using of_int_less_iff by blast
    then have "real_of_int \<bar>n\<bar> < pow2 53"
      by (simp add: pow2_int)
    then have "\<bar>y\<bar> < pow2 53 * pow2 E"
      using absy by (simp add: mult_strict_right_mono)
    then have "\<bar>y\<bar> < pow2 (53 + E)"
      by (simp add: pow2_add)
    then have "?m < 53 + E"
      using pos by (intro floor_log2_less)
    then have le: "?e \<le> E"
      using E by (simp add: ulp_exponent_def)
    have "pow2 E = pow2 (E - ?e) * pow2 ?e"
      by (rule pow2_split)
    also have "pow2 (E - ?e) = real_of_int (2 ^ nat (E - ?e))"
      using le by (simp add: pow2_int)
    finally have "y = real_of_int (n * 2 ^ nat (E - ?e)) * pow2 ?e"
      using y by simp
    then show ?thesis
      by blast
  qed
  then show ?thesis
    using fin round_double_multiple by blast
qed

lemma round_double_form:
  assumes "x \<noteq> 0" and "round_double x = Finite y"
  shows "\<exists>n. y = real_of_int n * pow2 (ulp_exponent x) \<and> \<bar>n\<bar> \<le> 2 ^ 53 \<and> \<bar>y\<bar> < pow2 1024"
proof -
  let ?m = "\<lfloor>log 2 \<bar>x\<bar>\<rfloor>"
  let ?e = "ulp_exponent x"
  let ?n = "round_even (x / pow2 ?e)"
  have pos: "0 < \<bar>x\<bar>"
    using assms(1) by simp
  have y: "y = real_of_int ?n * pow2 ?e" and fin: "\<bar>y\<bar> < pow2 1024"
    using assms by (auto simp: round_double_def Let_def split: if_splits)
  have "\<bar>x\<bar> < pow2 (?m + 1)"
    using floor_log2_bounds(2)[OF pos] .
  also have "pow2 (?m + 1) \<le> pow2 (?e + 53)"
    by (simp add: ulp_exponent_def)
  also have "\<dots> = pow2 53 * pow2 ?e"
    by (simp add: pow2_add)
  finally have "\<bar>x\<bar> / pow2 ?e < pow2 53"
    by (simp add: pos_divide_less_eq)
  then have "\<bar>x / pow2 ?e\<bar> < real_of_int (2 ^ 53)"
    using pow2_int[of 53] by (simp add: abs_divide)
  then have "x / pow2 ?e \<le> real_of_int (2 ^ 53)" and "real_of_int (- (2 ^ 53)) \<le> x / pow2 ?e"
    by linarith+
  then have "?n \<le> 2 ^ 53" and "- (2 ^ 53) \<le> ?n"
    using round_even_le_int round_even_mono_int by blast+
  then have "\<bar>?n\<bar> \<le> 2 ^ 53"
    by linarith
  then show ?thesis
    using y fin by blast
qed

lemma round_double_idem:
  assumes "round_double x = Finite y"
  shows "round_double y = Finite y"
proof (cases "x = 0")
  case True
  then show ?thesis
    using assms by (auto simp: round_double_def)
next
  case False
  from round_double_form[OF False assms] obtain n where
    "y = real_of_int n * pow2 (ulp_exponent x)" "\<bar>n\<bar> \<le> 2 ^ 53" "\<bar>y\<bar> < pow2 1024"
    by blast
  then show ?thesis
    using ulp_exponent_ge[of x] by (intro representable[of y n "ulp_exponent x"])
qed

lemma double_multiple:
  assumes "round_double x = Finite y"
  shows "\<exists>k. y = real_of_int k * pow2 (- 1074)"
proof (cases "x = 0")
  case True
  then have "y = real_of_int 0 * pow2 (- 1074)"
    using assms by (auto simp: round_double_def)
  then show ?thesis
    by blast
next
  case False
  from round_double_form[OF False assms] obtain n where
    y: "y = real_of_int n * pow2 (ulp_exponent x)"
    by blast
  let ?d = "ulp_exponent x + 1074"
  have "pow2 (ulp_exponent x) = pow2 ?d * pow2 (- 1074)"
    using pow2_split[of "ulp_exponent x" "- 1074"] by simp
  also have "pow2 ?d = real_of_int (2 ^ nat ?d)"
    using ulp_exponent_ge[of x] by (simp add: pow2_int)
  finally have "y = real_of_int (n * 2 ^ nat ?d) * pow2 (- 1074)"
    using y by simp
  then show ?thesis
    by blast
qed

lemma ulp_exponent_half:
  assumes "pow2 (- 1021) \<le> \<bar>x\<bar>"
  shows "ulp_exponent (x / 2) = ulp_exponent x - 1"
proof -
  have pos: "0 < \<bar>x\<bar>"
    using assms pow2_pos[of "- 1021"] by linarith
  have m: "- 1021 \<le> \<lfloor>log 2 \<bar>x\<bar>\<rfloor>"
    using pos assms by (rule floor_log2_ge)
  have "log 2 (\<bar>x\<bar> / 2) = log 2 \<bar>x\<bar> - 1"
    using pos by (simp add: log_divide)
  then have "\<lfloor>log 2 \<bar>x / 2\<bar>\<rfloor> = \<lfloor>log 2 \<bar>x\<bar>\<rfloor> - 1"
    by simp
  then show ?thesis
    using m by (simp add: ulp_exponent_def)
qed

lemma round_double_half:
  assumes "pow2 (- 1021) \<le> \<bar>x\<bar>" and "round_double x = Finite y"
  shows "round_double (x / 2) = Finite (y / 2)"
proof -
  have nz: "x \<noteq> 0"
    using assms(1) pow2_pos[of "- 1021"] by auto
  let ?e = "ulp_exponent x"
  have y: "y = real_of_int (round_even (x / pow2 ?e)) * pow2 ?e" and fin: "\<bar>y\<bar> < pow2 1024"
    using assms(2) nz by (auto simp: round_double_def Let_def split: if_splits)
  have e: "ulp_exponent (x / 2) = ?e - 1"
    using assms(1) by (rule ulp_exponent_half)
  have q: "x / 2 / pow2 (?e - 1) = x / pow2 ?e"
    by (simp add: pow2_pred)
  have "real_of_int (round_even (x / 2 / pow2 (?e - 1))) * pow2 (?e - 1) = y / 2"
    unfolding q using y by (simp add: pow2_pred)
  moreover have "\<bar>y / 2\<bar> < pow2 1024"
    using fin by simp
  ultimately show ?thesis
    using nz e by (simp add: round_double_def Let_def)
qed

lemma pow2_nonzero [simp]: "pow2 e \<noteq> 0"
  using pow2_pos[of e] by linarith

lemma pow2_inverse: "1 / pow2 a = pow2 (- a)"
  by (simp add: pow2_def powr_minus_divide)

lemma round_double_zero [simp]: "round_double 0 = Finite 0"
  by (simp add: round_double_def)

lemma double_times_two:
  assumes "round_double T = Finite T" and "\<bar>T\<bar> \<le> pow2 1022"
  shows "round_double (2 * T) = Finite (2 * T)"
proof (cases "T = 0")
  case True
  then show ?thesis by simp
next
  case False
  from round_double_form[OF False assms(1)] obtain n where
    n: "T = real_of_int n * pow2 (ulp_exponent T)" "\<bar>n\<bar> \<le> 2 ^ 53"
    by blast
  have "2 * T = real_of_int n * pow2 (ulp_exponent T + 1)"
    using n(1) by (simp add: pow2_Suc)
  moreover have "\<bar>2 * T\<bar> \<le> pow2 1023"
    using assms(2) pow2_Suc[of 1022] by simp
  then have "\<bar>2 * T\<bar> < pow2 1024"
    using pow2_strict_mono[of 1023 1024] by linarith
  ultimately show ?thesis
    using n(2) ulp_exponent_ge[of T]
    by (intro representable[of "2 * T" n "ulp_exponent T + 1"]) simp_all
qed

lemma halved_inverse_pos:
  assumes dbl: "round_double T = Finite T" and lo: "pow2 (- 1023) \<le> T" and hi: "T \<le> pow2 1021"
  shows "\<exists>fs. round_double (1 / T) = Finite fs \<and> round_double (fs / 2) = Finite (fs / 2) \<and>
              round_double (1 / (2 * T)) = Finite (fs / 2)"
proof -
  have pos: "0 < T"
    using lo pow2_pos[of "- 1023"] by linarith
  have "1 / T \<le> 1 / pow2 (- 1023)"
    using lo by (intro divide_left_mono) (simp_all add: pos)
  then have up: "1 / T \<le> pow2 1023"
    using pow2_inverse[of "- 1023"] by simp
  have "1 / pow2 1021 \<le> 1 / T"
    using hi pos by (intro divide_left_mono) simp_all
  then have low: "pow2 (- 1021) \<le> 1 / T"
    using pow2_inverse[of 1021] by simp
  have ipos: "0 < 1 / T"
    using pos by simp
  from round_double_upper[OF ipos up] obtain fs where
    fs: "round_double (1 / T) = Finite fs" "0 \<le> fs"
    by auto
  from round_double_lower[OF low] fs have fslow: "pow2 (- 1021) \<le> fs"
    by auto
  have "round_double fs = Finite fs"
    using fs(1) by (rule round_double_idem)
  then have half: "round_double (fs / 2) = Finite (fs / 2)"
    using fslow fs(2) by (intro round_double_half) simp_all
  have "round_double (1 / T / 2) = Finite (fs / 2)"
    using low ipos fs(1) by (intro round_double_half) simp_all
  then have "round_double (1 / (2 * T)) = Finite (fs / 2)"
    by (simp add: field_simps)
  then show ?thesis
    using fs(1) half by blast
qed

lemma halved_inverse_agrees_finite:
  assumes dbl: "round_double T = Finite T"
      and lo: "pow2 (- 1023) \<le> \<bar>T\<bar>" and hi: "\<bar>T\<bar> \<le> pow2 1021"
  shows "halved_inverse (Finite T) = spec_default_fmax (Finite T)"
proof -
  have nz: "T \<noteq> 0"
    using lo by auto
  have two: "round_double (2 * T) = Finite (2 * T)"
    using dbl hi pow2_mono[of 1021 1022] by (intro double_times_two) linarith+
  show ?thesis
  proof (cases "0 < T")
    case True
    from halved_inverse_pos[OF dbl] lo hi True obtain fs where
      "round_double (1 / T) = Finite fs" "round_double (fs / 2) = Finite (fs / 2)"
      "round_double (1 / (2 * T)) = Finite (fs / 2)"
      by auto
    then show ?thesis
      using nz two by (simp add: halved_inverse_def spec_default_fmax_def)
  next
    case False
    then have neg: "0 < - T"
      using nz by simp
    have "round_double (- T) = Finite (- T)"
      using dbl by (simp add: round_double_minus)
    from halved_inverse_pos[OF this] lo hi neg obtain fs where
      fs: "round_double (1 / (- T)) = Finite fs" "round_double (fs / 2) = Finite (fs / 2)"
      "round_double (1 / (2 * (- T))) = Finite (fs / 2)"
      by auto
    have a: "round_double (1 / T) = Finite (- fs)"
      using fs(1) round_double_minus[of "1 / (- T)"] by simp
    have b: "round_double (- fs / 2) = Finite (- fs / 2)"
      using fs(2) round_double_minus[of "fs / 2"] by simp
    have c: "round_double (1 / (2 * T)) = Finite (- fs / 2)"
      using fs(3) round_double_minus[of "1 / (2 * (- T))"] by simp
    show ?thesis
      using nz two a b c by (simp add: halved_inverse_def spec_default_fmax_def)
  qed
qed

lemma halved_inverse_agrees_special:
  "halved_inverse NaN = spec_default_fmax NaN"
  "halved_inverse PosInf = spec_default_fmax PosInf"
  "halved_inverse NegInf = spec_default_fmax NegInf"
  "halved_inverse (Finite 0) = spec_default_fmax (Finite 0)"
  by (simp_all add: halved_inverse_def spec_default_fmax_def)

lemma ulp_exponent_pow2: "ulp_exponent (pow2 k) = max k (- 1022) - 52"
proof -
  have "\<lfloor>log 2 \<bar>pow2 k\<bar>\<rfloor> = k"
    by (intro floor_log2_eqI) simp_all
  then show ?thesis
    by (simp add: ulp_exponent_def)
qed

lemma round_double_pow2_finite:
  assumes "- 1074 \<le> k" and "k < 1024"
  shows "round_double (pow2 k) = Finite (pow2 k)"
proof -
  have "pow2 k = real_of_int 1 * pow2 k"
    by simp
  moreover have "\<bar>pow2 k\<bar> < pow2 1024"
    using assms(2) by simp
  ultimately show ?thesis
    using assms(1) by (intro representable[of "pow2 k" 1 k]) simp_all
qed

lemma round_double_pow2_overflow:
  assumes "1024 \<le> k"
  shows "round_double (pow2 k) = PosInf"
proof -
  have "round_double (pow2 k) = PosInf \<or> (\<exists>y. round_double (pow2 k) = Finite y \<and> pow2 1024 \<le> y)"
    using assms by (intro round_double_lower) simp_all
  moreover have "\<not> (\<exists>y. round_double (pow2 k) = Finite y \<and> pow2 1024 \<le> y)"
    by (auto simp: round_double_def Let_def split: if_splits)
  ultimately show ?thesis
    by blast
qed

lemma overflow_example:
  "halved_inverse (Finite (pow2 (- 1024))) = Inr PosInf"
  "spec_default_fmax (Finite (pow2 (- 1024))) = Inr (Finite (pow2 1023))"
proof -
  have a: "1 / pow2 (- 1024) = pow2 1024"
    using pow2_inverse[of "- 1024"] by simp
  show "halved_inverse (Finite (pow2 (- 1024))) = Inr PosInf"
    by (simp add: halved_inverse_def a round_double_pow2_overflow)
  have "2 * pow2 (- 1024) = pow2 (- 1023)"
    using pow2_Suc[of "- 1024"] by simp
  moreover have "1 / pow2 (- 1023) = pow2 1023"
    using pow2_inverse[of "- 1023"] by simp
  ultimately show "spec_default_fmax (Finite (pow2 (- 1024))) = Inr (Finite (pow2 1023))"
    by (simp add: spec_default_fmax_def round_double_pow2_finite)
qed

lemma f64_pos_double_positive: "f64_pos_double v \<Longrightarrow> f64_positive v"
proof (cases v)
  case (Finite x)
  assume "f64_pos_double v"
  then have "pow2 (- 1074) \<le> x"
    using Finite by (simp add: f64_pos_double_def)
  then have "0 < x"
    using pow2_pos[of "- 1074"] by linarith
  then show ?thesis
    using Finite by (simp add: f64_positive_def)
qed (simp_all add: f64_pos_double_def f64_positive_def)

lemma round_double_pos_double: "pow2 (- 1074) \<le> x \<Longrightarrow> f64_pos_double (round_double x)"
  using round_double_lower[of "- 1074" x] by (auto simp: f64_pos_double_def)

lemma doubles_apart:
  assumes "round_double a = Finite a" and "round_double b = Finite b" and "a < b"
  shows "pow2 (- 1074) \<le> b - a"
proof -
  obtain i j where a: "a = real_of_int i * pow2 (- 1074)" and b: "b = real_of_int j * pow2 (- 1074)"
    using assms(1,2) double_multiple by blast
  have "real_of_int i * pow2 (- 1074) < real_of_int j * pow2 (- 1074)"
    using assms(3) a b by simp
  then have "i < j"
    by (simp add: mult_less_cancel_right)
  then have "1 \<le> real_of_int (j - i)"
    by simp
  then have "1 * pow2 (- 1074) \<le> real_of_int (j - i) * pow2 (- 1074)"
    by (intro mult_right_mono) simp_all
  then show ?thesis
    using a b by (simp add: algebra_simps)
qed

lemma f64_sub_pos_double:
  assumes "valid_f64 a" and "valid_f64 b" and "f64_less a b"
  shows "f64_pos_double (f64_sub b a)"
proof (cases a)
  case fa: (Finite x)
  show ?thesis
  proof (cases b)
    case (Finite y)
    then have "pow2 (- 1074) \<le> y - x"
      using assms fa by (intro doubles_apart) (simp_all add: valid_f64_def)
    then show ?thesis
      using fa Finite round_double_pos_double[of "y - x"] by (simp add: f64_sub_def)
  qed (use assms fa in \<open>simp_all add: f64_sub_def f64_pos_double_def\<close>)
qed (use assms in \<open>cases b; simp add: f64_sub_def f64_pos_double_def\<close>)+

lemma diff_f64_pos_double:
  "list_all valid_f64 xs \<Longrightarrow> sorted_wrt f64_less xs \<Longrightarrow> d \<in> set (diff_f64 xs) \<Longrightarrow> f64_pos_double d"
  by (induction xs rule: diff_f64.induct) (auto simp: f64_sub_pos_double)

lemma length_diff_f64: "length (diff_f64 xs) = length xs - 1"
  by (induction xs rule: diff_f64.induct) auto

lemma diff_f64_empty: "diff_f64 xs = [] \<longleftrightarrow> length xs < 2"
  by (induction xs rule: diff_f64.induct) auto

lemma set_insort_f64 [simp]: "set (insort_f64 v vs) = insert v (set vs)"
  by (induction vs) auto

lemma set_sort_f64 [simp]: "set (sort_f64 vs) = set vs"
  by (induction vs) auto

lemma length_insort_f64 [simp]: "length (insort_f64 v vs) = Suc (length vs)"
  by (induction vs) auto

lemma length_sort_f64 [simp]: "length (sort_f64 vs) = length vs"
  by (induction vs) auto

lemma f64_half_add_pos_double:
  assumes "f64_pos_double a" and "f64_pos_double b"
  shows "f64_pos_double (f64_half (f64_add a b))"
proof (cases a)
  case fa: (Finite x)
  show ?thesis
  proof (cases b)
    case fb: (Finite y)
    have "pow2 (- 1073) \<le> x + y"
      using assms fa fb pow2_Suc[of "- 1074"] by (simp add: f64_pos_double_def)
    from round_double_lower[OF this]
    consider "round_double (x + y) = PosInf"
      | s where "round_double (x + y) = Finite s" "pow2 (- 1073) \<le> s"
      by auto
    then show ?thesis
    proof cases
      case 1
      then show ?thesis
        using fa fb by (simp add: f64_pos_double_def)
    next
      case 2
      then have "pow2 (- 1074) \<le> s / 2"
        using pow2_Suc[of "- 1074"] by simp
      then show ?thesis
        using fa fb 2(1) round_double_pos_double[of "s / 2"] by simp
    qed
  qed (use assms fa in \<open>simp_all add: f64_pos_double_def\<close>)
qed (use assms in \<open>cases b; simp add: f64_pos_double_def\<close>)+

lemma median_f64_pos_double:
  assumes "xs \<noteq> []" and "\<forall>d \<in> set xs. f64_pos_double d"
  shows "f64_pos_double (median_f64 xs)"
proof -
  let ?s = "sort_f64 xs"
  let ?k = "length xs div 2"
  have nonan: "NaN \<notin> set xs"
    using assms(2) by (auto simp: f64_pos_double_def)
  have pos: "f64_pos_double (?s ! i)" if "i < length xs" for i
  proof -
    have "?s ! i \<in> set ?s"
      using that by (intro nth_mem) simp
    then show ?thesis
      using assms(2) by simp
  qed
  have k: "?k < length xs"
    using assms(1) by (simp add: length_greater_0_conv)
  show ?thesis
  proof (cases "odd (length xs)")
    case True
    then have "median_f64 xs = ?s ! ?k"
      using assms(1) nonan by (simp add: median_f64_def Let_def)
    then show ?thesis
      using pos[OF k] by simp
  next
    case False
    then have "median_f64 xs = f64_half (f64_add (?s ! (?k - 1)) (?s ! ?k))"
      using assms(1) nonan by (simp add: median_f64_def Let_def)
    moreover have "?k - 1 < length xs"
      using k by simp
    ultimately show ?thesis
      using pos[OF k] pos[of "?k - 1"] by (simp add: f64_half_add_pos_double)
  qed
qed

lemma halved_inverse_of_positive:
  assumes "f64_positive T"
  shows "\<exists>fs fm. py_truediv (Finite 1) T = Inr fs \<and> py_truediv fs (Finite 2) = Inr fm \<and>
                 halved_inverse T = Inr fm"
  using assms by (cases T) (auto simp: f64_positive_def halved_inverse_def)

subsection \<open>The default maximum frequency\<close>


lemma halved_inverse_raises:
  "halved_inverse T = Inl err \<longleftrightarrow> err = ZeroDivisionError \<and> T = Finite 0"
  by (cases T) (auto simp: halved_inverse_def)

lemma halved_inverse_zero [simp]: "halved_inverse (Finite 0) = Inl ZeroDivisionError"
  by (simp add: halved_inverse_def)

lemma default_fmax_raises:
  "default_fmax np t = Inl err \<longleftrightarrow>
     (\<exists>e. err = NumpyError e \<and> median_diff np t = Inl e) \<or>
     (err = PyError ZeroDivisionError \<and> median_diff np t = Inr (Finite 0))"
  by (auto simp: default_fmax_def halved_inverse_raises split: sum.splits)

lemma default_fmax_returns:
  "default_fmax np t = Inr fm \<longleftrightarrow> (\<exists>T. median_diff np t = Inr T \<and> halved_inverse T = Inr fm)"
  by (auto simp: default_fmax_def split: sum.splits)

lemma halved_inverse_agrees:
  assumes "ordinary_interval T"
  shows "halved_inverse T = spec_default_fmax T"
proof (cases T)
  case (Finite x)
  show ?thesis
  proof (cases "x = 0")
    case True
    then show ?thesis
      using Finite halved_inverse_agrees_special(4) by simp
  next
    case False
    then show ?thesis
      using assms Finite by (simp add: ordinary_interval_def halved_inverse_agrees_finite)
  qed
qed (simp_all add: halved_inverse_agrees_special)

subsection \<open>Small values\<close>

lemma pow2_0 [simp]: "pow2 0 = 1"
  by (simp add: pow2_def)

lemma pow2_1: "pow2 1 = 2"
  by (simp add: pow2_def)

lemma pow2_minus_1: "pow2 (- 1) = 1 / 2"
  using pow2_inverse[of 1] by (simp add: pow2_1)

lemma round_double_1 [simp]: "round_double 1 = Finite 1"
  using round_double_pow2_finite[of 0] by simp

lemma round_double_2 [simp]: "round_double 2 = Finite 2"
  using round_double_pow2_finite[of 1] by (simp add: pow2_1)

lemma round_double_half_1 [simp]: "round_double (1 / 2) = Finite (1 / 2)"
  using round_double_pow2_finite[of "- 1"] by (simp add: pow2_minus_1)

lemma round_double_minus_1 [simp]: "round_double (- 1) = Finite (- 1)"
  using round_double_minus[of 1] by simp

lemma round_double_minus_half_1 [simp]: "round_double (- (1 / 2)) = Finite (- (1 / 2))"
  using round_double_minus[of "1 / 2"] by simp

lemma round_even_half: "round_even (1 / 2) = 0"
  by (simp add: round_even_def)

lemma round_double_below_smallest: "round_double (pow2 (- 1074) / 2) = Finite 0"
proof -
  have p: "pow2 (- 1074) / 2 = pow2 (- 1075)"
    using pow2_pred[of "- 1074"] by simp
  have e: "ulp_exponent (pow2 (- 1075)) = - 1074"
    by (simp add: ulp_exponent_pow2)
  have "pow2 (- 1075) / pow2 (- 1074) = 1 / 2"
    using pow2_pred[of "- 1074"] by simp
  then show ?thesis
    unfolding p by (simp add: round_double_def Let_def e round_even_half)
qed

lemmas run_defs = and_then_def ret_def raise_def step_def np_call_def lib_call_def
  new_LombScargle_def do_autopower_def do_false_alarm_probability_def do_false_alarm_level_def
  new_WaveletAnalysis_def get_fourier_periods_def get_wavelet_power_def
  get_global_wavelet_spectrum_def

subsection \<open>The paths of \<^verbatim>\<open>lombscargle\<close>\<close>

text \<open>
  Every way a run of \<^verbatim>\<open>lombscargle\<close> can go, one lemma per path: the calls made and
  the outcome, given what each library call answered.
\<close>

lemma lombscargle_ctor_fails:
  assumes "LombScargle lib t (Array x) (ls_kwargs dx psd) = Inl e"
  shows "lombscargle np lib t x dx f0 fmax n fap_method fap_level psd =
           ([Call_LombScargle t (Array x) (ls_kwargs dx psd)], Inl (LibraryError e))"
  using assms by (cases psd) (simp_all add: lombscargle_def run_defs)

lemma lombscargle_fmax_fails:
  assumes "LombScargle lib t (Array x) (ls_kwargs dx psd) = Inr ls"
      and "chosen_fmax np t fmax = Inl err"
  shows "lombscargle np lib t x dx f0 fmax n fap_method fap_level psd =
           ([Call_LombScargle t (Array x) (ls_kwargs dx psd)], Inl err)"
  using assms by (cases psd; cases fmax) (simp_all add: lombscargle_def run_defs)

lemma lombscargle_autopower_fails:
  assumes "LombScargle lib t (Array x) (ls_kwargs dx psd) = Inr ls"
      and "chosen_fmax np t fmax = Inr fm"
      and "autopower lib ls (ap_kwargs n f0 fm) = Inl e"
  shows "lombscargle np lib t x dx f0 fmax n fap_method fap_level psd =
           ([Call_LombScargle t (Array x) (ls_kwargs dx psd),
             Call_autopower ls (ap_kwargs n f0 fm)], Inl (LibraryError e))"
  using assms by (cases psd; cases fmax) (simp_all add: lombscargle_def run_defs)

lemma lombscargle_no_method:
  assumes "LombScargle lib t (Array x) (ls_kwargs dx psd) = Inr ls"
      and "chosen_fmax np t fmax = Inr fm"
      and "autopower lib ls (ap_kwargs n f0 fm) = Inr (f, a)"
  shows "lombscargle np lib t x dx f0 fmax n None fap_level psd =
           ([Call_LombScargle t (Array x) (ls_kwargs dx psd),
             Call_autopower ls (ap_kwargs n f0 fm)], Inr (Tuple3 ls f a))"
  using assms by (cases psd; cases fmax) (simp_all add: lombscargle_def run_defs)

lemma lombscargle_unknown_method:
  assumes "LombScargle lib t (Array x) (ls_kwargs dx psd) = Inr ls"
      and "chosen_fmax np t fmax = Inr fm"
      and "autopower lib ls (ap_kwargs n f0 fm) = Inr (f, a)"
      and "m \<notin> set [''baluev'', ''bootstrap'']"
  shows "lombscargle np lib t x dx f0 fmax n (Some m) fap_level psd =
           ([Call_LombScargle t (Array x) (ls_kwargs dx psd),
             Call_autopower ls (ap_kwargs n f0 fm)],
            Inl (PyError (AssertionError (''Unknown FAP method '' @ m))))"
  using assms by (cases psd; cases fmax) (simp_all add: lombscargle_def run_defs)

lemma lombscargle_max_fails:
  assumes "LombScargle lib t (Array x) (ls_kwargs dx psd) = Inr ls"
      and "chosen_fmax np t fmax = Inr fm"
      and "autopower lib ls (ap_kwargs n f0 fm) = Inr (f, a)"
      and "m \<in> set [''baluev'', ''bootstrap'']"
      and "np_max np a = Inl e"
  shows "lombscargle np lib t x dx f0 fmax n (Some m) fap_level psd =
           ([Call_LombScargle t (Array x) (ls_kwargs dx psd),
             Call_autopower ls (ap_kwargs n f0 fm)], Inl (NumpyError e))"
  using assms by (cases psd; cases fmax) (simp_all add: lombscargle_def run_defs)

lemma lombscargle_fap_fails:
  assumes "LombScargle lib t (Array x) (ls_kwargs dx psd) = Inr ls"
      and "chosen_fmax np t fmax = Inr fm"
      and "autopower lib ls (ap_kwargs n f0 fm) = Inr (f, a)"
      and "m \<in> set [''baluev'', ''bootstrap'']"
      and "np_max np a = Inr z"
      and "false_alarm_probability lib ls z (fa_kwargs m f0 fm n) = Inl e"
  shows "lombscargle np lib t x dx f0 fmax n (Some m) fap_level psd =
           ([Call_LombScargle t (Array x) (ls_kwargs dx psd),
             Call_autopower ls (ap_kwargs n f0 fm),
             Call_false_alarm_probability ls z (fa_kwargs m f0 fm n)], Inl (LibraryError e))"
  using assms by (cases psd; cases fmax) (simp_all add: lombscargle_def run_defs)

lemma lombscargle_no_level:
  assumes "LombScargle lib t (Array x) (ls_kwargs dx psd) = Inr ls"
      and "chosen_fmax np t fmax = Inr fm"
      and "autopower lib ls (ap_kwargs n f0 fm) = Inr (f, a)"
      and "m \<in> set [''baluev'', ''bootstrap'']"
      and "np_max np a = Inr z"
      and "false_alarm_probability lib ls z (fa_kwargs m f0 fm n) = Inr fap"
  shows "lombscargle np lib t x dx f0 fmax n (Some m) None psd =
           ([Call_LombScargle t (Array x) (ls_kwargs dx psd),
             Call_autopower ls (ap_kwargs n f0 fm),
             Call_false_alarm_probability ls z (fa_kwargs m f0 fm n)],
            Inr (Tuple4 ls f a fap))"
  using assms by (cases psd; cases fmax) (simp_all add: lombscargle_def run_defs)

lemma lombscargle_fal_fails:
  assumes "LombScargle lib t (Array x) (ls_kwargs dx psd) = Inr ls"
      and "chosen_fmax np t fmax = Inr fm"
      and "autopower lib ls (ap_kwargs n f0 fm) = Inr (f, a)"
      and "m \<in> set [''baluev'', ''bootstrap'']"
      and "np_max np a = Inr z"
      and "false_alarm_probability lib ls z (fa_kwargs m f0 fm n) = Inr fap"
      and "false_alarm_level lib ls lv (fa_kwargs m f0 fm n) = Inl e"
  shows "lombscargle np lib t x dx f0 fmax n (Some m) (Some lv) psd =
           ([Call_LombScargle t (Array x) (ls_kwargs dx psd),
             Call_autopower ls (ap_kwargs n f0 fm),
             Call_false_alarm_probability ls z (fa_kwargs m f0 fm n),
             Call_false_alarm_level ls lv (fa_kwargs m f0 fm n)], Inl (LibraryError e))"
  using assms by (cases psd; cases fmax) (simp_all add: lombscargle_def run_defs)

lemma lombscargle_with_level:
  assumes "LombScargle lib t (Array x) (ls_kwargs dx psd) = Inr ls"
      and "chosen_fmax np t fmax = Inr fm"
      and "autopower lib ls (ap_kwargs n f0 fm) = Inr (f, a)"
      and "m \<in> set [''baluev'', ''bootstrap'']"
      and "np_max np a = Inr z"
      and "false_alarm_probability lib ls z (fa_kwargs m f0 fm n) = Inr fap"
      and "false_alarm_level lib ls lv (fa_kwargs m f0 fm n) = Inr fal"
  shows "lombscargle np lib t x dx f0 fmax n (Some m) (Some lv) psd =
           ([Call_LombScargle t (Array x) (ls_kwargs dx psd),
             Call_autopower ls (ap_kwargs n f0 fm),
             Call_false_alarm_probability ls z (fa_kwargs m f0 fm n),
             Call_false_alarm_level ls lv (fa_kwargs m f0 fm n)],
            Inr (Tuple5 ls f a fap fal))"
  using assms by (cases psd; cases fmax) (simp_all add: lombscargle_def run_defs)

text \<open>
  The paths are exhaustive: a case analysis over the answers of the library.
\<close>

lemma lombscargle_cases
  [case_names ctor_fails fmax_fails autopower_fails no_method unknown_method max_fails
     fap_fails no_level fal_fails with_level]:
  fixes np :: "('v, 'e) numpy" and lib :: "('v, 'ls, 'e) astropy"
  obtains
    (ctor_fails) e where
      "LombScargle lib t (Array x) (ls_kwargs dx psd) = Inl e"
      "lombscargle np lib t x dx f0 fmax n fap_method fap_level psd =
         ([Call_LombScargle t (Array x) (ls_kwargs dx psd)], Inl (LibraryError e))"
  | (fmax_fails) ls err where
      "LombScargle lib t (Array x) (ls_kwargs dx psd) = Inr ls"
      "chosen_fmax np t fmax = Inl err"
      "lombscargle np lib t x dx f0 fmax n fap_method fap_level psd =
         ([Call_LombScargle t (Array x) (ls_kwargs dx psd)], Inl err)"
  | (autopower_fails) ls fm e where
      "LombScargle lib t (Array x) (ls_kwargs dx psd) = Inr ls"
      "chosen_fmax np t fmax = Inr fm"
      "autopower lib ls (ap_kwargs n f0 fm) = Inl e"
      "lombscargle np lib t x dx f0 fmax n fap_method fap_level psd =
         ([Call_LombScargle t (Array x) (ls_kwargs dx psd),
           Call_autopower ls (ap_kwargs n f0 fm)], Inl (LibraryError e))"
  | (no_method) ls fm f a where
      "LombScargle lib t (Array x) (ls_kwargs dx psd) = Inr ls"
      "chosen_fmax np t fmax = Inr fm"
      "autopower lib ls (ap_kwargs n f0 fm) = Inr (f, a)"
      "fap_method = None"
      "lombscargle np lib t x dx f0 fmax n fap_method fap_level psd =
         ([Call_LombScargle t (Array x) (ls_kwargs dx psd),
           Call_autopower ls (ap_kwargs n f0 fm)], Inr (Tuple3 ls f a))"
  | (unknown_method) ls fm f a m where
      "LombScargle lib t (Array x) (ls_kwargs dx psd) = Inr ls"
      "chosen_fmax np t fmax = Inr fm"
      "autopower lib ls (ap_kwargs n f0 fm) = Inr (f, a)"
      "fap_method = Some m"
      "m \<notin> set [''baluev'', ''bootstrap'']"
      "lombscargle np lib t x dx f0 fmax n fap_method fap_level psd =
         ([Call_LombScargle t (Array x) (ls_kwargs dx psd),
           Call_autopower ls (ap_kwargs n f0 fm)],
          Inl (PyError (AssertionError (''Unknown FAP method '' @ m))))"
  | (max_fails) ls fm f a m e where
      "LombScargle lib t (Array x) (ls_kwargs dx psd) = Inr ls"
      "chosen_fmax np t fmax = Inr fm"
      "autopower lib ls (ap_kwargs n f0 fm) = Inr (f, a)"
      "fap_method = Some m"
      "m \<in> set [''baluev'', ''bootstrap'']"
      "np_max np a = Inl e"
      "lombscargle np lib t x dx f0 fmax n fap_method fap_level psd =
         ([Call_LombScargle t (Array x) (ls_kwargs dx psd),
           Call_autopower ls (ap_kwargs n f0 fm)], Inl (NumpyError e))"
  | (fap_fails) ls fm f a m z e where
      "LombScargle lib t (Array x) (ls_kwargs dx psd) = Inr ls"
      "chosen_fmax np t fmax = Inr fm"
      "autopower lib ls (ap_kwargs n f0 fm) = Inr (f, a)"
      "fap_method = Some m"
      "m \<in> set [''baluev'', ''bootstrap'']"
      "np_max np a = Inr z"
      "false_alarm_probability lib ls z (fa_kwargs m f0 fm n) = Inl e"
      "lombscargle np lib t x dx f0 fmax n fap_method fap_level psd =
         ([Call_LombScargle t (Array x) (ls_kwargs dx psd),
           Call_autopower ls (ap_kwargs n f0 fm),
           Call_false_alarm_probability ls z (fa_kwargs m f0 fm n)], Inl (LibraryError e))"
  | (no_level) ls fm f a m z fap where
      "LombScargle lib t (Array x) (ls_kwargs dx psd) = Inr ls"
      "chosen_fmax np t fmax = Inr fm"
      "autopower lib ls (ap_kwargs n f0 fm) = Inr (f, a)"
      "fap_method = Some m"
      "m \<in> set [''baluev'', ''bootstrap'']"
      "np_max np a = Inr z"
      "false_alarm_probability lib ls z (fa_kwargs m f0 fm n) = Inr fap"
      "fap_level = None"
      "lombscargle np lib t x dx f0 fmax n fap_method fap_level psd =
         ([Call_LombScargle t (Array x) (ls_kwargs dx psd),
           Call_autopower ls (ap_kwargs n f0 fm),
           Call_false_alarm_probability ls z (fa_kwargs m f0 fm n)],
          Inr (Tuple4 ls f a fap))"
  | (fal_fails) ls fm f a m z fap lv e where
      "LombScargle lib t (Array x) (ls_kwargs dx psd) = Inr ls"
      "chosen_fmax np t fmax = Inr fm"
      "autopower lib ls (ap_kwargs n f0 fm) = Inr (f, a)"
      "fap_method = Some m"
      "m \<in> set [''baluev'', ''bootstrap'']"
      "np_max np a = Inr z"
      "false_alarm_probability lib ls z (fa_kwargs m f0 fm n) = Inr fap"
      "fap_level = Some lv"
      "false_alarm_level lib ls lv (fa_kwargs m f0 fm n) = Inl e"
      "lombscargle np lib t x dx f0 fmax n fap_method fap_level psd =
         ([Call_LombScargle t (Array x) (ls_kwargs dx psd),
           Call_autopower ls (ap_kwargs n f0 fm),
           Call_false_alarm_probability ls z (fa_kwargs m f0 fm n),
           Call_false_alarm_level ls lv (fa_kwargs m f0 fm n)], Inl (LibraryError e))"
  | (with_level) ls fm f a m z fap lv fal where
      "LombScargle lib t (Array x) (ls_kwargs dx psd) = Inr ls"
      "chosen_fmax np t fmax = Inr fm"
      "autopower lib ls (ap_kwargs n f0 fm) = Inr (f, a)"
      "fap_method = Some m"
      "m \<in> set [''baluev'', ''bootstrap'']"
      "np_max np a = Inr z"
      "false_alarm_probability lib ls z (fa_kwargs m f0 fm n) = Inr fap"
      "fap_level = Some lv"
      "false_alarm_level lib ls lv (fa_kwargs m f0 fm n) = Inr fal"
      "lombscargle np lib t x dx f0 fmax n fap_method fap_level psd =
         ([Call_LombScargle t (Array x) (ls_kwargs dx psd),
           Call_autopower ls (ap_kwargs n f0 fm),
           Call_false_alarm_probability ls z (fa_kwargs m f0 fm n),
           Call_false_alarm_level ls lv (fa_kwargs m f0 fm n)],
          Inr (Tuple5 ls f a fap fal))"
proof (cases "LombScargle lib t (Array x) (ls_kwargs dx psd)")
  case (Inl e)
  show ?thesis
    by (rule ctor_fails[OF Inl]) (rule lombscargle_ctor_fails[OF Inl])
next
  case ctor: (Inr ls)
  show ?thesis
  proof (cases "chosen_fmax np t fmax")
    case (Inl err)
    show ?thesis
      by (rule fmax_fails[OF ctor Inl]) (rule lombscargle_fmax_fails[OF ctor Inl])
  next
    case fm: (Inr fm)
    show ?thesis
    proof (cases "autopower lib ls (ap_kwargs n f0 fm)")
      case (Inl e)
      show ?thesis
        by (rule autopower_fails[OF ctor fm Inl])
          (rule lombscargle_autopower_fails[OF ctor fm Inl])
    next
      case (Inr fa)
      then obtain f a where ap: "autopower lib ls (ap_kwargs n f0 fm) = Inr (f, a)"
        by (cases fa) simp
      show ?thesis
      proof (cases fap_method)
        case None
        show ?thesis
          by (rule no_method[OF ctor fm ap None], unfold None)
            (rule lombscargle_no_method[OF ctor fm ap])
      next
        case meth: (Some m)
        show ?thesis
        proof (cases "m \<in> set [''baluev'', ''bootstrap'']")
          case False
          show ?thesis
            by (rule unknown_method[OF ctor fm ap meth False], unfold meth)
              (rule lombscargle_unknown_method[OF ctor fm ap False])
        next
          case known: True
          show ?thesis
          proof (cases "np_max np a")
            case (Inl e)
            show ?thesis
              by (rule max_fails[OF ctor fm ap meth known Inl], unfold meth)
                (rule lombscargle_max_fails[OF ctor fm ap known Inl])
          next
            case mx: (Inr z)
            show ?thesis
            proof (cases "false_alarm_probability lib ls z (fa_kwargs m f0 fm n)")
              case (Inl e)
              show ?thesis
                by (rule fap_fails[OF ctor fm ap meth known mx Inl], unfold meth)
                  (rule lombscargle_fap_fails[OF ctor fm ap known mx Inl])
            next
              case fp: (Inr fap)
              show ?thesis
              proof (cases fap_level)
                case None
                show ?thesis
                  by (rule no_level[OF ctor fm ap meth known mx fp None], unfold meth None)
                    (rule lombscargle_no_level[OF ctor fm ap known mx fp])
              next
                case lvl: (Some lv)
                show ?thesis
                proof (cases "false_alarm_level lib ls lv (fa_kwargs m f0 fm n)")
                  case (Inl e)
                  show ?thesis
                    by (rule fal_fails[OF ctor fm ap meth known mx fp lvl Inl], unfold meth lvl)
                      (rule lombscargle_fal_fails[OF ctor fm ap known mx fp Inl])
                next
                  case (Inr fal)
                  show ?thesis
                    by (rule with_level[OF ctor fm ap meth known mx fp lvl Inr],
                        unfold meth lvl)
                      (rule lombscargle_with_level[OF ctor fm ap known mx fp Inr])
                qed
              qed
            qed
          qed
        qed
      qed
    qed
  qed
qed

subsection \<open>The runs of \<^verbatim>\<open>window\<close> and \<^verbatim>\<open>wavelet\<close>\<close>

lemma fst_and_then_lib_call:
  "fst (and_then (lib_call c r) k) = c # (case r of Inl e \<Rightarrow> [] | Inr v \<Rightarrow> fst (k v))"
  by (simp add: and_then_def lib_call_def split: sum.split prod.split)

lemma snd_and_then_lib_call:
  "snd (and_then (lib_call c r) k) =
     (case r of Inl e \<Rightarrow> Inl (LibraryError e) | Inr v \<Rightarrow> snd (k v))"
  by (simp add: and_then_def lib_call_def split: sum.split prod.split)

lemma calls_after_LombScargle_update:
  "do_autopower (lib\<lparr>LombScargle := g\<rparr>) = do_autopower lib"
  "do_false_alarm_probability (lib\<lparr>LombScargle := g\<rparr>) = do_false_alarm_probability lib"
  "do_false_alarm_level (lib\<lparr>LombScargle := g\<rparr>) = do_false_alarm_level lib"
  by (intro ext, simp add: do_autopower_def do_false_alarm_probability_def
      do_false_alarm_level_def)+


lemma wavelet_run:
  "wavelet np lib t x pmin pmax n_periods =
     (case median_diff np t of
        Inl e \<Rightarrow> ([], Inl (NumpyError e))
      | Inr dt \<Rightarrow>
          (let kw = [Dt dt, Mask_coi True, Unbias True]
           in case WaveletAnalysis lib x t kw of
                Inl e \<Rightarrow> ([Call_WaveletAnalysis x t kw], Inl (LibraryError e))
              | Inr wa \<Rightarrow>
                  (case fourier_periods lib wa of
                     Inl e \<Rightarrow>
                       ([Call_WaveletAnalysis x t kw, Get_fourier_periods wa],
                        Inl (LibraryError e))
                   | Inr periods \<Rightarrow>
                       (case wavelet_power lib wa of
                          Inl e \<Rightarrow>
                            ([Call_WaveletAnalysis x t kw, Get_fourier_periods wa,
                              Get_wavelet_power wa], Inl (LibraryError e))
                        | Inr wps \<Rightarrow>
                            ([Call_WaveletAnalysis x t kw, Get_fourier_periods wa,
                              Get_wavelet_power wa, Get_global_wavelet_spectrum wa],
                             case global_wavelet_spectrum lib wa of
                               Inl e \<Rightarrow> Inl (LibraryError e)
                             | Inr gwps \<Rightarrow> Inr (wa, periods, gwps, wps))))))"
  by (simp add: wavelet_def run_defs Let_def split: sum.split)

lemma wavelet_returns:
  "snd (wavelet np lib t x pmin pmax n_periods) = Inr (wa, periods, gwps, wps) \<longleftrightarrow>
   (\<exists>dt. median_diff np t = Inr dt \<and>
      WaveletAnalysis lib x t [Dt dt, Mask_coi True, Unbias True] = Inr wa) \<and>
   fourier_periods lib wa = Inr periods \<and>
   wavelet_power lib wa = Inr wps \<and>
   global_wavelet_spectrum lib wa = Inr gwps"
  by (auto simp: wavelet_run Let_def split: sum.splits)

subsection \<open>Failures\<close>










subsection \<open>The median sampling interval of one-dimensional arrays\<close>

lemma median_diff_returns:
  "median_diff np t = Inr dt \<longleftrightarrow>
     (\<exists>d m. np_diff np t = Inr d \<and> np_median np d = Inr m \<and> py_float np m = Inr dt)"
  by (auto simp: median_diff_def split: sum.splits)

lemma median_diff_f64:
  "median_diff numpy_1d (F64Array xs) = Inr (median_f64 (diff_f64 xs))"
  by (simp add: median_diff_def numpy_1d_def)

lemma median_diff_i64:
  "median_diff numpy_1d (I64Array ks) = Inr (median_f64 (map i64_to_f64 (diff_i64 ks)))"
  by (simp add: median_diff_def numpy_1d_def)

lemma wrap64_small: "0 \<le> d \<Longrightarrow> d < 2 ^ 63 \<Longrightarrow> wrap64 d = d"
  by (simp add: wrap64_def)

lemma diff_i64_positive:
  "sorted_wrt (<) ks \<Longrightarrow> \<forall>a \<in> set ks. \<forall>b \<in> set ks. b - a < 2 ^ 63 \<Longrightarrow>
     d \<in> set (diff_i64 ks) \<Longrightarrow> 1 \<le> d"
proof (induction ks rule: diff_i64.induct)
  case (1 a b r)
  from "1.prems" have ab: "a < b" and small: "b - a < 2 ^ 63"
    by simp_all
  then have w: "wrap64 (b - a) = b - a"
    by (simp add: wrap64_small)
  from "1.prems" have rest: "sorted_wrt (<) (b # r)"
    and bound: "\<forall>u \<in> set (b # r). \<forall>v \<in> set (b # r). v - u < 2 ^ 63"
    by simp_all
  from "1.prems"(3) have "d = wrap64 (b - a) \<or> d \<in> set (diff_i64 (b # r))"
    by simp
  then show ?case
  proof
    assume "d = wrap64 (b - a)"
    with w ab show ?thesis
      by simp
  next
    assume "d \<in> set (diff_i64 (b # r))"
    with "1.IH" rest bound show ?thesis
      by blast
  qed
qed simp_all

lemma length_diff_i64: "length (diff_i64 ks) = length ks - 1"
  by (induction ks rule: diff_i64.induct) simp_all

lemma i64_to_f64_pos_double: "1 \<le> d \<Longrightarrow> f64_pos_double (i64_to_f64 d)"
proof -
  assume "1 \<le> d"
  then have "1 \<le> real_of_int d"
    by simp
  moreover have "pow2 (- 1074) \<le> pow2 0"
    by (simp del: pow2_0)
  ultimately have "pow2 (- 1074) \<le> real_of_int d"
    by simp
  then show ?thesis
    unfolding i64_to_f64_def by (rule round_double_pos_double)
qed

lemma default_fmax_of_positive:
  assumes "median_diff np t = Inr T" and "f64_positive T"
  shows "\<exists>fs fm. py_truediv (Finite 1) T = Inr fs \<and> py_truediv fs (Finite 2) = Inr fm \<and>
                 default_fmax np t = Inr fm"
  using halved_inverse_of_positive[OF assms(2)] assms(1)
  by (auto simp: default_fmax_def)

lemma default_fmax_nan:
  "median_diff np t = Inr NaN \<Longrightarrow> default_fmax np t = Inr NaN"
  by (simp add: default_fmax_def halved_inverse_def)


section \<open>The default maximum frequency\<close>

text \<open>
  Claim C1, amended. For every time array \<open>t\<close>, when \<^verbatim>\<open>lombscargle\<close> is called with
  \<^verbatim>\<open>fmax=None\<close>, the maximum frequency it passes to \<^verbatim>\<open>autopower\<close> is the float
  \<^verbatim>\<open>(1 / T) / 2\<close> with \<open>T = float(median(diff(t)))\<close>: every call of \<^verbatim>\<open>autopower\<close> in the
  run carries exactly the keywords \<^verbatim>\<open>samples_per_peak=n\<close>, \<^verbatim>\<open>minimum_frequency=f0\<close>
  and that maximum frequency, and the call is made whenever the model is built and the
  two divisions return. This value equals \<^verbatim>\<open>1 / (2 * T)\<close> whenever \<open>T\<close> is \<^verbatim>\<open>nan\<close>,
  infinite, or a float of magnitude between \<open>2 ^ -1023\<close> and \<open>2 ^ 1021\<close>.
\<close>

theorem lombscargle_default_fmax:
  fixes np :: "('v, 'e) numpy" and lib :: "('v, 'ls, 'e) astropy"
  shows
  "(\<forall>ls kw. Call_autopower ls kw
        \<in> set (fst (lombscargle np lib t x dx f0 None n fap_method fap_level psd)) \<longrightarrow>
      (\<exists>T fm. median_diff np t = Inr T \<and> halved_inverse T = Inr fm \<and>
              kw = ap_kwargs n f0 fm \<and>
              (ordinary_interval T \<longrightarrow> spec_default_fmax T = Inr fm))) \<and>
   (\<forall>ls T fm. LombScargle lib t (Array x) (ls_kwargs dx psd) = Inr ls \<and>
         median_diff np t = Inr T \<and> halved_inverse T = Inr fm \<longrightarrow>
      Call_autopower ls (ap_kwargs n f0 fm)
        \<in> set (fst (lombscargle np lib t x dx f0 None n fap_method fap_level psd))) \<and>
   (\<forall>T. ordinary_interval T \<longrightarrow> halved_inverse T = spec_default_fmax T)"
proof (cases rule: lombscargle_cases[where np=np and lib=lib and t=t and x=x and dx=dx
      and psd=psd and fmax=None and n=n and ?f0.0=f0 and fap_method=fap_method
      and fap_level=fap_level])
  case (ctor_fails e)
  then show ?thesis by (simp add: halved_inverse_agrees)
next
  case (fmax_fails ls err)
  then show ?thesis by (auto simp: halved_inverse_agrees default_fmax_raises)
next
  case (autopower_fails ls fm e)
  then show ?thesis by (auto simp: halved_inverse_agrees default_fmax_returns)
next
  case (no_method ls fm f a)
  then show ?thesis by (auto simp: halved_inverse_agrees default_fmax_returns)
next
  case (unknown_method ls fm f a m)
  then show ?thesis by (auto simp: halved_inverse_agrees default_fmax_returns)
next
  case (max_fails ls fm f a m e)
  then show ?thesis by (auto simp: halved_inverse_agrees default_fmax_returns)
next
  case (fap_fails ls fm f a m z e)
  then show ?thesis by (auto simp: halved_inverse_agrees default_fmax_returns)
next
  case (no_level ls fm f a m z fap)
  then show ?thesis by (auto simp: halved_inverse_agrees default_fmax_returns)
next
  case (fal_fails ls fm f a m z fap lv e)
  then show ?thesis by (auto simp: halved_inverse_agrees default_fmax_returns)
next
  case (with_level ls fm f a m z fap lv fal)
  then show ?thesis by (auto simp: halved_inverse_agrees default_fmax_returns)
qed

theorem lombscargle_default_fmax_witness:
  "Call_autopower
     (F64Array [Finite 0, Finite 1, Finite 2, Finite 3],
      Array (F64Array [Finite 1, Finite 0, Finite 1, Finite 0]), [Dy None])
     (ap_kwargs (Finite 5) (Finite 0) (Finite (1 / 2)))
     \<in> set (fst (lombscargle numpy_1d stub_astropy
                   (F64Array [Finite 0, Finite 1, Finite 2, Finite 3])
                   (F64Array [Finite 1, Finite 0, Finite 1, Finite 0])
                   None (Finite 0) None (Finite 5) None None False)) \<and>
   median_diff numpy_1d (F64Array [Finite 0, Finite 1, Finite 2, Finite 3]) = Inr (Finite 1) \<and>
   ordinary_interval (Finite 1) \<and>
   spec_default_fmax (Finite 1) = Inr (Finite (1 / 2))"
proof -
  have T: "median_diff numpy_1d (F64Array [Finite 0, Finite 1, Finite 2, Finite 3]) =
      Inr (Finite 1)"
    by (simp add: median_diff_def numpy_1d_def f64_sub_def median_f64_def f64_le_def)
  have h: "halved_inverse (Finite 1) = Inr (Finite (1 / 2))"
    by (simp add: halved_inverse_def)
  have "pow2 (- 1023) \<le> pow2 0" and "pow2 0 \<le> pow2 1021"
    by (simp_all only: pow2_mono)
  then have o: "ordinary_interval (Finite 1)"
    by (simp add: ordinary_interval_def)
  have c: "LombScargle stub_astropy (F64Array [Finite 0, Finite 1, Finite 2, Finite 3])
      (Array (F64Array [Finite 1, Finite 0, Finite 1, Finite 0])) (ls_kwargs None False) =
      Inr (F64Array [Finite 0, Finite 1, Finite 2, Finite 3],
           Array (F64Array [Finite 1, Finite 0, Finite 1, Finite 0]), [Dy None])"
    by (simp add: stub_astropy_def)
  show ?thesis
    using lombscargle_default_fmax[where np = numpy_1d and lib = stub_astropy
        and t = "F64Array [Finite 0, Finite 1, Finite 2, Finite 3]"
        and x = "F64Array [Finite 1, Finite 0, Finite 1, Finite 0]"
        and dx = None and psd = False and n = "Finite 5" and ?f0.0 = "Finite 0"
        and fap_method = None and fap_level = None]
      T h o c
    by (metis (no_types, lifting))
qed

text \<open>
  As stated, for every \<open>t\<close>, the claim fails where \<^verbatim>\<open>1 / T\<close> overflows: for the times
  \<open>[0, 2 ^ -1024]\<close> the median interval is \<open>2 ^ -1024\<close>, \<^verbatim>\<open>1 / T\<close> is \<open>+inf\<close> and so is the
  maximum frequency passed to \<^verbatim>\<open>autopower\<close>, while \<^verbatim>\<open>1 / (2 * T)\<close> is \<open>2 ^ 1023\<close>.
\<close>

theorem lombscargle_default_fmax_counterexample:
  "lombscargle numpy_1d stub_astropy (F64Array [Finite 0, Finite (pow2 (- 1024))])
     (F64Array [Finite 1, Finite 0]) None (Finite 0) None (Finite 5) None None False =
     ([Call_LombScargle (F64Array [Finite 0, Finite (pow2 (- 1024))])
         (Array (F64Array [Finite 1, Finite 0])) [Dy None],
       Call_autopower
         (F64Array [Finite 0, Finite (pow2 (- 1024))], Array (F64Array [Finite 1, Finite 0]),
          [Dy None])
         [Samples_per_peak (Finite 5), Minimum_frequency (Finite 0), Maximum_frequency PosInf]],
      Inr (Tuple3
         (F64Array [Finite 0, Finite (pow2 (- 1024))], Array (F64Array [Finite 1, Finite 0]),
          [Dy None])
         (F64Array [Finite 0, Finite (1 / 4), Finite (1 / 2)])
         (F64Array [Finite 1, Finite 3, Finite 2]))) \<and>
   median_diff numpy_1d (F64Array [Finite 0, Finite (pow2 (- 1024))]) =
     Inr (Finite (pow2 (- 1024))) \<and>
   spec_default_fmax (Finite (pow2 (- 1024))) = Inr (Finite (pow2 1023))"
proof -
  have T: "median_diff numpy_1d (F64Array [Finite 0, Finite (pow2 (- 1024))]) =
      Inr (Finite (pow2 (- 1024)))"
    by (simp add: median_diff_def numpy_1d_def f64_sub_def median_f64_def
        round_double_pow2_finite)
  then have "default_fmax numpy_1d (F64Array [Finite 0, Finite (pow2 (- 1024))]) = Inr PosInf"
    by (simp add: default_fmax_def overflow_example(1))
  then have "lombscargle numpy_1d stub_astropy (F64Array [Finite 0, Finite (pow2 (- 1024))])
     (F64Array [Finite 1, Finite 0]) None (Finite 0) None (Finite 5) None None False =
     ([Call_LombScargle (F64Array [Finite 0, Finite (pow2 (- 1024))])
         (Array (F64Array [Finite 1, Finite 0])) [Dy None],
       Call_autopower
         (F64Array [Finite 0, Finite (pow2 (- 1024))], Array (F64Array [Finite 1, Finite 0]),
          [Dy None])
         [Samples_per_peak (Finite 5), Minimum_frequency (Finite 0), Maximum_frequency PosInf]],
      Inr (Tuple3
         (F64Array [Finite 0, Finite (pow2 (- 1024))], Array (F64Array [Finite 1, Finite 0]),
          [Dy None])
         (F64Array [Finite 0, Finite (1 / 4), Finite (1 / 2)])
         (F64Array [Finite 1, Finite 3, Finite 2])))"
    by (simp add: lombscargle_def run_defs stub_astropy_def)
  then show ?thesis
    using T overflow_example(2) by simp
qed

section \<open>The assertion on the false-alarm method\<close>

text \<open>
  Claim C2, amended. \<^verbatim>\<open>lombscargle\<close> ends with the assertion error
  \<^verbatim>\<open>Unknown FAP method <name>\<close> exactly when \<^verbatim>\<open>fap_method\<close> is a string (not
  \<^verbatim>\<open>None\<close>) other than \<^verbatim>\<open>baluev\<close> and \<^verbatim>\<open>bootstrap\<close> and the steps before the
  assertion went through: the model was built, the maximum frequency was determined and
  \<^verbatim>\<open>autopower\<close> answered. The run then consists of those two library calls only; no
  false-alarm function is called.
\<close>

theorem lombscargle_assertion:
  fixes np :: "('v, 'e) numpy" and lib :: "('v, 'ls, 'e) astropy"
  shows
  "(snd (lombscargle np lib t x dx f0 fmax n fap_method fap_level psd) =
      Inl (PyError (AssertionError msg)) \<longleftrightarrow>
    (\<exists>m ls fm f a.
       fap_method = Some m \<and> m \<notin> set [''baluev'', ''bootstrap''] \<and>
       msg = ''Unknown FAP method '' @ m \<and>
       LombScargle lib t (Array x) (ls_kwargs dx psd) = Inr ls \<and>
       chosen_fmax np t fmax = Inr fm \<and>
       autopower lib ls (ap_kwargs n f0 fm) = Inr (f, a))) \<and>
   (\<forall>ls fm.
      snd (lombscargle np lib t x dx f0 fmax n fap_method fap_level psd) =
        Inl (PyError (AssertionError msg)) \<and>
      LombScargle lib t (Array x) (ls_kwargs dx psd) = Inr ls \<and>
      chosen_fmax np t fmax = Inr fm \<longrightarrow>
      fst (lombscargle np lib t x dx f0 fmax n fap_method fap_level psd) =
        [Call_LombScargle t (Array x) (ls_kwargs dx psd),
         Call_autopower ls (ap_kwargs n f0 fm)])"
proof (cases rule: lombscargle_cases[where np=np and lib=lib and t=t and x=x and dx=dx
      and psd=psd and fmax=fmax and n=n and ?f0.0=f0 and fap_method=fap_method
      and fap_level=fap_level])
  case (ctor_fails e)
  then show ?thesis by auto
next
  case (fmax_fails ls err)
  then show ?thesis by (cases fmax) (auto simp: default_fmax_raises default_fmax_returns)
next
  case (autopower_fails ls fm e)
  then show ?thesis by auto
next
  case (no_method ls fm f a)
  then show ?thesis by auto
next
  case (unknown_method ls fm f a m)
  then show ?thesis by auto
next
  case (max_fails ls fm f a m e)
  then show ?thesis by auto
next
  case (fap_fails ls fm f a m z e)
  then show ?thesis by auto
next
  case (no_level ls fm f a m z fap)
  then show ?thesis by auto
next
  case (fal_fails ls fm f a m z fap lv e)
  then show ?thesis by auto
next
  case (with_level ls fm f a m z fap lv fal)
  then show ?thesis by auto
qed

theorem lombscargle_assertion_witness:
  "snd (lombscargle numpy_1d stub_astropy (F64Array [Finite 0, Finite 1, Finite 3])
          (F64Array [Finite 1, Finite 2, Finite 3]) None (Finite 0) (Some (Finite 2))
          (Finite 5) (Some ''fourier'') None True) =
     Inl (PyError (AssertionError ''Unknown FAP method fourier''))"
  by (simp add: lombscargle_assertion[THEN conjunct1] stub_astropy_def)

text \<open>
  As stated for every \<^verbatim>\<open>fap_method\<close> outside the two names, the claim fails twice:
  \<^verbatim>\<open>None\<close> is outside them and the call returns a triple, the assertion being
  guarded by \<^verbatim>\<open>if fap_method is not None\<close>; and with an unknown name and all sampling
  times equal, the division \<^verbatim>\<open>1 / T\<close> raises before the assertion is reached.
\<close>

theorem lombscargle_assertion_counterexample:
  "snd (lombscargle numpy_1d stub_astropy (F64Array [Finite 0, Finite 1, Finite 2, Finite 3])
          (F64Array [Finite 1, Finite 2, Finite 3, Finite 4]) None (Finite 0) None (Finite 5)
          None None False) =
     Inr (Tuple3
       (F64Array [Finite 0, Finite 1, Finite 2, Finite 3],
        Array (F64Array [Finite 1, Finite 2, Finite 3, Finite 4]), [Dy None])
       (F64Array [Finite 0, Finite (1 / 4), Finite (1 / 2)])
       (F64Array [Finite 1, Finite 3, Finite 2])) \<and>
   snd (lombscargle numpy_1d stub_astropy (F64Array [Finite 1, Finite 1, Finite 1])
          (F64Array [Finite 1, Finite 2, Finite 3]) None (Finite 0) None (Finite 5)
          (Some ''fourier'') None False) =
     Inl (PyError ZeroDivisionError)"
  by (simp add: lombscargle_def run_defs stub_astropy_def default_fmax_def median_diff_def
      numpy_1d_def f64_sub_def median_f64_def f64_le_def halved_inverse_def)

section \<open>The number of trial periods of \<^verbatim>\<open>wavelet\<close>\<close>

text \<open>
  Claim C3 says that the trial periods \<^verbatim>\<open>wavelet\<close> returns are \<^verbatim>\<open>n_periods\<close> many.
  The function does not do that: whenever it returns at all, it returns the same trial
  periods for some other non-negative \<^verbatim>\<open>n_periods\<close> that is not their number
  (\<open>np_size\<close>, the length of an array).
\<close>

theorem wavelet_length_not_n_periods:
  assumes "snd (wavelet np lib t x pmin pmax n_periods) = Inr (wa, periods, gwps, wps)"
  shows "\<exists>k. snd (wavelet np lib t x pmin pmax k) = Inr (wa, periods, gwps, wps) \<and>
             0 \<le> k \<and> np_size periods \<noteq> nat k"
proof -
  let ?k = "int (np_size periods) + 1"
  have "snd (wavelet np lib t x pmin pmax ?k) = Inr (wa, periods, gwps, wps)"
    using assms by (simp add: wavelet_returns)
  moreover have "0 \<le> ?k" and "np_size periods \<noteq> nat ?k"
    by simp_all
  ultimately show ?thesis
    by blast
qed

theorem wavelet_length_not_n_periods_witness:
  "\<exists>k. snd (wavelet numpy_1d stub_wavelets (F64Array [Finite 0, Finite 1, Finite 2, Finite 3])
             (F64Array [Finite 1, Finite 0, Finite 1, Finite 0]) (Finite 0) None k) =
          Inr ((F64Array [Finite 1, Finite 0, Finite 1, Finite 0],
                F64Array [Finite 0, Finite 1, Finite 2, Finite 3],
                [Dt (Finite 1), Mask_coi True, Unbias True]),
               F64Array [Finite 2, Finite 4, Finite 8],
               F64Array [Finite 1, Finite 1, Finite 2],
               F64Array [Finite 1, Finite 0, Finite 1]) \<and>
        0 \<le> k \<and> np_size (F64Array [Finite 2, Finite 4, Finite 8]) \<noteq> nat k"
proof (rule wavelet_length_not_n_periods)
  show "snd (wavelet numpy_1d stub_wavelets (F64Array [Finite 0, Finite 1, Finite 2, Finite 3])
             (F64Array [Finite 1, Finite 0, Finite 1, Finite 0]) (Finite 0) None 3) =
          Inr ((F64Array [Finite 1, Finite 0, Finite 1, Finite 0],
                F64Array [Finite 0, Finite 1, Finite 2, Finite 3],
                [Dt (Finite 1), Mask_coi True, Unbias True]),
               F64Array [Finite 2, Finite 4, Finite 8],
               F64Array [Finite 1, Finite 1, Finite 2],
               F64Array [Finite 1, Finite 0, Finite 1])"
    by (simp add: wavelet_run Let_def stub_wavelets_def median_diff_def numpy_1d_def
        f64_sub_def median_f64_def f64_le_def)
qed

section \<open>The shape of the tuple \<^verbatim>\<open>lombscargle\<close> returns\<close>

text \<open>
  Claim C4. \<^verbatim>\<open>lombscargle\<close> returns exactly when the model is built, the maximum
  frequency is determined and \<^verbatim>\<open>autopower\<close> answers, and then: without
  \<^verbatim>\<open>fap_method\<close> the result is the triple (model, frequencies, power), whatever
  \<^verbatim>\<open>fap_level\<close> is; with a recognised \<^verbatim>\<open>fap_method\<close> and no \<^verbatim>\<open>fap_level\<close> it is
  the 4-tuple that adds the false-alarm probability of the highest peak; with both it
  is the 5-tuple that adds the false-alarm levels.
\<close>

theorem lombscargle_returned_tuple:
  fixes np :: "('v, 'e) numpy" and lib :: "('v, 'ls, 'e) astropy"
  shows
  "snd (lombscargle np lib t x dx f0 fmax n fap_method fap_level psd) = Inr r \<longleftrightarrow>
   (\<exists>ls fm f a.
      LombScargle lib t (Array x) (ls_kwargs dx psd) = Inr ls \<and>
      chosen_fmax np t fmax = Inr fm \<and>
      autopower lib ls (ap_kwargs n f0 fm) = Inr (f, a) \<and>
      (case fap_method of
         None \<Rightarrow> r = Tuple3 ls f a
       | Some m \<Rightarrow>
           m \<in> set [''baluev'', ''bootstrap''] \<and>
           (\<exists>z fap.
              np_max np a = Inr z \<and>
              false_alarm_probability lib ls z (fa_kwargs m f0 fm n) = Inr fap \<and>
              (case fap_level of
                 None \<Rightarrow> r = Tuple4 ls f a fap
               | Some lv \<Rightarrow>
                   (\<exists>fal.
                      false_alarm_level lib ls lv (fa_kwargs m f0 fm n) = Inr fal \<and>
                      r = Tuple5 ls f a fap fal)))))"
proof (cases rule: lombscargle_cases[where np=np and lib=lib and t=t and x=x and dx=dx
      and psd=psd and fmax=fmax and n=n and ?f0.0=f0 and fap_method=fap_method
      and fap_level=fap_level])
  case (ctor_fails e)
  then show ?thesis by simp
next
  case (fmax_fails ls err)
  then show ?thesis by simp
next
  case (autopower_fails ls fm e)
  then show ?thesis by simp
next
  case (no_method ls fm f a)
  then show ?thesis by auto
next
  case (unknown_method ls fm f a m)
  then show ?thesis by simp
next
  case (max_fails ls fm f a m e)
  then show ?thesis by simp
next
  case (fap_fails ls fm f a m z e)
  then show ?thesis by simp
next
  case (no_level ls fm f a m z fap)
  then show ?thesis by auto
next
  case (fal_fails ls fm f a m z fap lv e)
  then show ?thesis by simp
next
  case (with_level ls fm f a m z fap lv fal)
  then show ?thesis by auto
qed

theorem lombscargle_returned_tuple_witness:
  "snd (lombscargle numpy_1d stub_astropy (F64Array [Finite 0, Finite 1, Finite 2, Finite 3])
          (F64Array [Finite 1, Finite 2, Finite 3, Finite 4]) None (Finite 0) None (Finite 5)
          None (Some (F64Array [Finite (1 / 2)])) False) =
     Inr (Tuple3
       (F64Array [Finite 0, Finite 1, Finite 2, Finite 3],
        Array (F64Array [Finite 1, Finite 2, Finite 3, Finite 4]), [Dy None])
       (F64Array [Finite 0, Finite (1 / 4), Finite (1 / 2)])
       (F64Array [Finite 1, Finite 3, Finite 2])) \<and>
   snd (lombscargle numpy_1d stub_astropy (F64Array [Finite 0, Finite 1, Finite 2, Finite 3])
          (F64Array [Finite 1, Finite 2, Finite 3, Finite 4]) None (Finite 0) None (Finite 5)
          (Some ''bootstrap'') None False) =
     Inr (Tuple4
       (F64Array [Finite 0, Finite 1, Finite 2, Finite 3],
        Array (F64Array [Finite 1, Finite 2, Finite 3, Finite 4]), [Dy None])
       (F64Array [Finite 0, Finite (1 / 4), Finite (1 / 2)])
       (F64Array [Finite 1, Finite 3, Finite 2])
       (F64 (Finite (1 / 4)))) \<and>
   snd (lombscargle numpy_1d stub_astropy (F64Array [Finite 0, Finite 1, Finite 2, Finite 3])
          (F64Array [Finite 1, Finite 2, Finite 3, Finite 4]) None (Finite 0) None (Finite 5)
          (Some ''baluev'') (Some (F64Array [Finite (1 / 2)])) False) =
     Inr (Tuple5
       (F64Array [Finite 0, Finite 1, Finite 2, Finite 3],
        Array (F64Array [Finite 1, Finite 2, Finite 3, Finite 4]), [Dy None])
       (F64Array [Finite 0, Finite (1 / 4), Finite (1 / 2)])
       (F64Array [Finite 1, Finite 3, Finite 2])
       (F64 (Finite (1 / 4)))
       (F64Array [Finite (1 / 2)]))"
  by (simp add: lombscargle_returned_tuple stub_astropy_def default_fmax_def median_diff_def
      numpy_1d_def f64_sub_def median_f64_def f64_le_def halved_inverse_def f64_max_def)

section \<open>The normalization flag\<close>

text \<open>
  Claim C5. With \<^verbatim>\<open>psd=True\<close> the model is constructed with
  \<^verbatim>\<open>normalization='psd'\<close>; with \<^verbatim>\<open>psd=False\<close> no normalization is passed, which
  leaves the library's default. The flag changes nothing else: a run with
  \<^verbatim>\<open>psd=True\<close> has the outcome and the later calls of the run with \<^verbatim>\<open>psd=False\<close>
  against a library whose constructor adds \<^verbatim>\<open>normalization='psd'\<close> by itself.
\<close>

theorem lombscargle_psd_normalization:
  fixes np :: "('v, 'e) numpy" and lib :: "('v, 'ls, 'e) astropy"
  shows
  "(\<exists>rest. fst (lombscargle np lib t x dx f0 fmax n fap_method fap_level True) =
      Call_LombScargle t (Array x) [Dy dx, Normalization ''psd''] # rest) \<and>
   (\<exists>rest. fst (lombscargle np lib t x dx f0 fmax n fap_method fap_level False) =
      Call_LombScargle t (Array x) [Dy dx] # rest) \<and>
   snd (lombscargle np lib t x dx f0 fmax n fap_method fap_level True) =
     snd (lombscargle np
            (lib\<lparr>LombScargle := \<lambda>t y kw. LombScargle lib t y (kw @ [Normalization ''psd''])\<rparr>)
            t x dx f0 fmax n fap_method fap_level False) \<and>
   tl (fst (lombscargle np lib t x dx f0 fmax n fap_method fap_level True)) =
     tl (fst (lombscargle np
            (lib\<lparr>LombScargle := \<lambda>t y kw. LombScargle lib t y (kw @ [Normalization ''psd''])\<rparr>)
            t x dx f0 fmax n fap_method fap_level False))"
  unfolding lombscargle_def calls_after_LombScargle_update
  by (simp add: new_LombScargle_def fst_and_then_lib_call snd_and_then_lib_call)

theorem lombscargle_psd_normalization_witness:
  "\<exists>rest. fst (lombscargle numpy_1d stub_astropy (F64Array [Finite 0, Finite 1, Finite 3])
                 (F64Array [Finite 1, Finite 2, Finite 3]) None (Finite 0) None (Finite 5)
                 None None True) =
     Call_LombScargle (F64Array [Finite 0, Finite 1, Finite 3])
       (Array (F64Array [Finite 1, Finite 2, Finite 3])) [Dy None, Normalization ''psd''] # rest"
  using lombscargle_psd_normalization[of numpy_1d stub_astropy
      "F64Array [Finite 0, Finite 1, Finite 3]" "F64Array [Finite 1, Finite 2, Finite 3]"
      None "Finite 0" None "Finite 5" None None]
  by blast

section \<open>The window function\<close>

text \<open>
  Claim C6. \<^verbatim>\<open>window(t, n)\<close> builds the Lomb-Scargle model over \<open>t\<close> with the constant
  signal 1 (the scalar, which stands for the all-ones sampling comb) and with
  \<^verbatim>\<open>fit_mean=False\<close> and \<^verbatim>\<open>center_data=False\<close>, calls \<^verbatim>\<open>autopower\<close> on it with minimum
  frequency 0 and \<^verbatim>\<open>samples_per_peak=n\<close>, makes no other call, and returns the pair
  (frequencies, power) that \<^verbatim>\<open>autopower\<close> answered.
\<close>

theorem window_sampling_comb:
  assumes "LombScargle lib t (Scalar 1) [Fit_mean False, Center_data False] = Inr ls"
      and "autopower lib ls [Minimum_frequency (Finite 0), Samples_per_peak n] = Inr (f, a)"
  shows "window lib t n =
           ([Call_LombScargle t (Scalar 1) [Fit_mean False, Center_data False],
             Call_autopower ls [Minimum_frequency (Finite 0), Samples_per_peak n]],
            Inr (f, a))"
  using assms by (simp add: window_def run_defs)

theorem window_sampling_comb_witness:
  "window stub_astropy (F64Array [Finite 0, Finite 1, Finite 3]) (Finite 5) =
     ([Call_LombScargle (F64Array [Finite 0, Finite 1, Finite 3]) (Scalar 1)
         [Fit_mean False, Center_data False],
       Call_autopower
         (F64Array [Finite 0, Finite 1, Finite 3], Scalar 1,
          [Fit_mean False, Center_data False])
         [Minimum_frequency (Finite 0), Samples_per_peak (Finite 5)]],
      Inr (F64Array [Finite 0, Finite (1 / 4), Finite (1 / 2)],
           F64Array [Finite 1, Finite 3, Finite 2]))"
  by (rule window_sampling_comb) (simp_all add: stub_astropy_def)

section \<open>Failures of the libraries\<close>




section \<open>The divisions of the default maximum frequency\<close>

text \<open>
  Claim C9, amended. With \<open>T = float(median(diff(t)))\<close>: if \<open>t\<close> is a float64 array,
  strictly increasing, with at least two elements, then \<open>T > 0\<close> and both divisions,
  \<^verbatim>\<open>1 / T\<close> and \<^verbatim>\<open>fs / 2\<close>, return. The same holds of an int64 array when moreover no
  two of its elements are \<open>2 ^ 63\<close> or more apart; beyond that the differences wrap
  around. With fewer than two elements the difference array is empty, its median is
  \<^verbatim>\<open>nan\<close> and so is the maximum frequency; nothing is raised. In general the
  computation fails exactly when numpy raises or \<open>T = 0\<close>, the latter with
  \<^verbatim>\<open>ZeroDivisionError\<close>; repeated times can make \<open>T\<close> zero but need not.
\<close>

theorem default_fmax_division:
  fixes np :: "('v, 'e) numpy"
  shows
  "(list_all valid_f64 xs \<and> sorted_wrt f64_less xs \<and> 2 \<le> length xs \<longrightarrow>
      (\<exists>T fs fm. median_diff numpy_1d (F64Array xs) = Inr T \<and> f64_positive T \<and>
           py_truediv (Finite 1) T = Inr fs \<and> py_truediv fs (Finite 2) = Inr fm \<and>
           default_fmax numpy_1d (F64Array xs) = Inr fm)) \<and>
   (sorted_wrt (<) ks \<and> 2 \<le> length ks \<and> (\<forall>a \<in> set ks. \<forall>b \<in> set ks. b - a < 2 ^ 63) \<longrightarrow>
      (\<exists>T fs fm. median_diff numpy_1d (I64Array ks) = Inr T \<and> f64_positive T \<and>
           py_truediv (Finite 1) T = Inr fs \<and> py_truediv fs (Finite 2) = Inr fm \<and>
           default_fmax numpy_1d (I64Array ks) = Inr fm)) \<and>
   (length xs < 2 \<longrightarrow>
      np_diff numpy_1d (F64Array xs) = Inr (F64Array []) \<and>
      median_diff numpy_1d (F64Array xs) = Inr NaN \<and>
      default_fmax numpy_1d (F64Array xs) = Inr NaN) \<and>
   (length ks < 2 \<longrightarrow>
      np_diff numpy_1d (I64Array ks) = Inr (I64Array []) \<and>
      median_diff numpy_1d (I64Array ks) = Inr NaN \<and>
      default_fmax numpy_1d (I64Array ks) = Inr NaN) \<and>
   (\<forall>err. default_fmax np t = Inl err \<longleftrightarrow>
      (\<exists>e. err = NumpyError e \<and> median_diff np t = Inl e) \<or>
      (err = PyError ZeroDivisionError \<and> median_diff np t = Inr (Finite 0)))"
proof (intro conjI impI allI)
  assume inc: "list_all valid_f64 xs \<and> sorted_wrt f64_less xs \<and> 2 \<le> length xs"
  then have "diff_f64 xs \<noteq> []"
    by (simp add: diff_f64_empty)
  moreover have "\<forall>d \<in> set (diff_f64 xs). f64_pos_double d"
    using inc diff_f64_pos_double by blast
  ultimately have "f64_pos_double (median_f64 (diff_f64 xs))"
    by (rule median_f64_pos_double)
  then have "f64_positive (median_f64 (diff_f64 xs))"
    by (rule f64_pos_double_positive)
  with default_fmax_of_positive[OF median_diff_f64]
  show "\<exists>T fs fm. median_diff numpy_1d (F64Array xs) = Inr T \<and> f64_positive T \<and>
      py_truediv (Finite 1) T = Inr fs \<and> py_truediv fs (Finite 2) = Inr fm \<and>
      default_fmax numpy_1d (F64Array xs) = Inr fm"
    using median_diff_f64 by blast
next
  assume inc: "sorted_wrt (<) ks \<and> 2 \<le> length ks \<and>
    (\<forall>a \<in> set ks. \<forall>b \<in> set ks. b - a < 2 ^ 63)"
  then have "length (diff_i64 ks) \<noteq> 0"
    by (simp add: length_diff_i64)
  then have "map i64_to_f64 (diff_i64 ks) \<noteq> []"
    by simp
  moreover have "\<forall>d \<in> set (map i64_to_f64 (diff_i64 ks)). f64_pos_double d"
    using inc diff_i64_positive i64_to_f64_pos_double by fastforce
  ultimately have "f64_pos_double (median_f64 (map i64_to_f64 (diff_i64 ks)))"
    by (rule median_f64_pos_double)
  then have "f64_positive (median_f64 (map i64_to_f64 (diff_i64 ks)))"
    by (rule f64_pos_double_positive)
  with default_fmax_of_positive[OF median_diff_i64]
  show "\<exists>T fs fm. median_diff numpy_1d (I64Array ks) = Inr T \<and> f64_positive T \<and>
      py_truediv (Finite 1) T = Inr fs \<and> py_truediv fs (Finite 2) = Inr fm \<and>
      default_fmax numpy_1d (I64Array ks) = Inr fm"
    using median_diff_i64 by blast
next
  assume "length xs < 2"
  then have e: "diff_f64 xs = []"
    by (simp add: diff_f64_empty)
  then show "np_diff numpy_1d (F64Array xs) = Inr (F64Array [])"
    by (simp add: numpy_1d_def)
  from e show m: "median_diff numpy_1d (F64Array xs) = Inr NaN"
    by (simp add: median_diff_f64 median_f64_def)
  then show "default_fmax numpy_1d (F64Array xs) = Inr NaN"
    by (rule default_fmax_nan)
next
  assume "length ks < 2"
  then have "length (diff_i64 ks) = 0"
    by (simp add: length_diff_i64)
  then have e: "diff_i64 ks = []"
    by simp
  then show "np_diff numpy_1d (I64Array ks) = Inr (I64Array [])"
    by (simp add: numpy_1d_def)
  from e show m: "median_diff numpy_1d (I64Array ks) = Inr NaN"
    by (simp add: median_diff_i64 median_f64_def)
  then show "default_fmax numpy_1d (I64Array ks) = Inr NaN"
    by (rule default_fmax_nan)
next
  fix err
  show "default_fmax np t = Inl err \<longleftrightarrow>
      (\<exists>e. err = NumpyError e \<and> median_diff np t = Inl e) \<or>
      (err = PyError ZeroDivisionError \<and> median_diff np t = Inr (Finite 0))"
    by (rule default_fmax_raises)
qed

theorem default_fmax_division_witness:
  "(list_all valid_f64 [Finite 0, Finite 1, Finite 2] \<and>
    sorted_wrt f64_less [Finite 0, Finite 1, Finite 2] \<and>
    2 \<le> length [Finite 0, Finite 1, Finite 2 :: pyfloat]) \<and>
   (\<exists>T fs fm. median_diff numpy_1d (F64Array [Finite 0, Finite 1, Finite 2]) = Inr T \<and>
      f64_positive T \<and>
      py_truediv (Finite 1) T = Inr fs \<and> py_truediv fs (Finite 2) = Inr fm \<and>
      default_fmax numpy_1d (F64Array [Finite 0, Finite 1, Finite 2]) = Inr fm) \<and>
   default_fmax numpy_1d (F64Array [Finite 0, Finite 1, Finite 2]) = Inr (Finite (1 / 2)) \<and>
   (\<exists>T. median_diff numpy_1d (I64Array [0, 1, 3]) = Inr T \<and> f64_positive T) \<and>
   default_fmax numpy_1d (F64Array [Finite 7]) = Inr NaN \<and>
   default_fmax numpy_1d (I64Array [7]) = Inr NaN \<and>
   median_diff numpy_1d (F64Array [Finite 1, Finite 1, Finite 1]) = Inr (Finite 0) \<and>
   default_fmax numpy_1d (F64Array [Finite 1, Finite 1, Finite 1]) =
     Inl (PyError ZeroDivisionError) \<and>
   median_diff numpy_1d (F64Array [Finite 0, Finite 0, Finite (pow2 (- 1074))]) =
     Inr (Finite 0) \<and>
   default_fmax numpy_1d (F64Array [Finite 0, Finite 0, Finite (pow2 (- 1074))]) =
     Inl (PyError ZeroDivisionError)"
proof -
  have h: "list_all valid_f64 [Finite 0, Finite 1, Finite 2] \<and>
    sorted_wrt f64_less [Finite 0, Finite 1, Finite 2] \<and>
    2 \<le> length [Finite 0, Finite 1, Finite 2 :: pyfloat]"
    by (simp add: valid_f64_def)
  have k: "sorted_wrt (<) [0, 1, 3 :: int] \<and> 2 \<le> length [0, 1, 3 :: int] \<and>
    (\<forall>a \<in> set [0, 1, 3 :: int]. \<forall>b \<in> set [0, 1, 3]. b - a < 2 ^ 63)"
    by simp
  have v: "default_fmax numpy_1d (F64Array [Finite 0, Finite 1, Finite 2]) = Inr (Finite (1 / 2))"
    by (simp add: default_fmax_def median_diff_f64 f64_sub_def median_f64_def f64_le_def
        halved_inverse_def)
  have z1: "median_diff numpy_1d (F64Array [Finite 1, Finite 1, Finite 1]) = Inr (Finite 0)"
    by (simp add: median_diff_f64 f64_sub_def median_f64_def f64_le_def)
  have p: "round_double (pow2 (- 1074)) = Finite (pow2 (- 1074))"
    by (rule round_double_pow2_finite) simp_all
  have z2: "median_diff numpy_1d (F64Array [Finite 0, Finite 0, Finite (pow2 (- 1074))]) =
      Inr (Finite 0)"
    by (simp add: median_diff_f64 f64_sub_def median_f64_def f64_le_def p
        round_double_below_smallest)
  note th = default_fmax_division[where np = numpy_1d and xs = "[Finite 0, Finite 1, Finite 2]"
      and ks = "[0, 1, 3]" and t = "F64Array [Finite 1, Finite 1, Finite 1]"]
  note th7 = default_fmax_division[where np = numpy_1d and xs = "[Finite 7]" and ks = "[7]"
      and t = "F64Array [Finite 0, Finite 0, Finite (pow2 (- 1074))]"]
  have c1: "\<exists>T fs fm. median_diff numpy_1d (F64Array [Finite 0, Finite 1, Finite 2]) = Inr T \<and>
      f64_positive T \<and>
      py_truediv (Finite 1) T = Inr fs \<and> py_truediv fs (Finite 2) = Inr fm \<and>
      default_fmax numpy_1d (F64Array [Finite 0, Finite 1, Finite 2]) = Inr fm"
    by (rule th[THEN conjunct1, rule_format, OF h])
  have "\<exists>T fs fm. median_diff numpy_1d (I64Array [0, 1, 3]) = Inr T \<and> f64_positive T \<and>
      py_truediv (Finite 1) T = Inr fs \<and> py_truediv fs (Finite 2) = Inr fm \<and>
      default_fmax numpy_1d (I64Array [0, 1, 3]) = Inr fm"
    by (rule th[THEN conjunct2, THEN conjunct1, rule_format, OF k])
  then have c2: "\<exists>T. median_diff numpy_1d (I64Array [0, 1, 3]) = Inr T \<and> f64_positive T"
    by blast
  have c3: "default_fmax numpy_1d (F64Array [Finite 7]) = Inr NaN"
    using th7[THEN conjunct2, THEN conjunct2, THEN conjunct1] by simp
  have c4: "default_fmax numpy_1d (I64Array [7]) = Inr NaN"
    using th7[THEN conjunct2, THEN conjunct2, THEN conjunct2, THEN conjunct1] by simp
  have c5: "default_fmax numpy_1d (F64Array [Finite 1, Finite 1, Finite 1]) =
      Inl (PyError ZeroDivisionError)"
    using z1 th[THEN conjunct2, THEN conjunct2, THEN conjunct2, THEN conjunct2] by simp
  have c6: "default_fmax numpy_1d (F64Array [Finite 0, Finite 0, Finite (pow2 (- 1074))]) =
      Inl (PyError ZeroDivisionError)"
    using z2 th7[THEN conjunct2, THEN conjunct2, THEN conjunct2, THEN conjunct2] by simp
  from h c1 v c2 c3 c4 z1 c5 z2 c6 show ?thesis
    by blast
qed

text \<open>
  The claim as stated has every array with repeated times divide by zero or have an
  empty difference array, and every strictly increasing array give \<open>T > 0\<close>. The float64
  array \<open>[0, 0, 1, 2]\<close> repeats a time, its differences are \<open>[0, 1, 1]\<close> with median 1,
  and the default maximum frequency is \<open>1/2\<close>. The int64 array \<open>[-2 ^ 63, 2 ^ 63 - 1]\<close>
  is strictly increasing, its difference wraps around to \<open>-1\<close>, so \<open>T = -1\<close> and the
  default maximum frequency is \<open>-1/2\<close>.
\<close>

theorem default_fmax_division_counterexample:
  "\<not> sorted_wrt f64_less [Finite 0, Finite 0, Finite 1, Finite 2] \<and>
   np_diff numpy_1d (F64Array [Finite 0, Finite 0, Finite 1, Finite 2]) =
     Inr (F64Array [Finite 0, Finite 1, Finite 1]) \<and>
   median_diff numpy_1d (F64Array [Finite 0, Finite 0, Finite 1, Finite 2]) = Inr (Finite 1) \<and>
   default_fmax numpy_1d (F64Array [Finite 0, Finite 0, Finite 1, Finite 2]) =
     Inr (Finite (1 / 2)) \<and>
   sorted_wrt (<) [- 9223372036854775808, 9223372036854775807 :: int] \<and>
   np_diff numpy_1d (I64Array [- 9223372036854775808, 9223372036854775807]) =
     Inr (I64Array [- 1]) \<and>
   median_diff numpy_1d (I64Array [- 9223372036854775808, 9223372036854775807]) =
     Inr (Finite (- 1)) \<and>
   \<not> f64_positive (Finite (- 1)) \<and>
   default_fmax numpy_1d (I64Array [- 9223372036854775808, 9223372036854775807]) =
     Inr (Finite (- (1 / 2)))"
  by (simp add: default_fmax_def median_diff_def numpy_1d_def f64_sub_def median_f64_def
      f64_le_def halved_inverse_def wrap64_def i64_to_f64_def f64_positive_def)

section \<open>The unused arguments of \<^verbatim>\<open>wavelet\<close>\<close>

text \<open>
  Claim C10. The arguments \<^verbatim>\<open>pmin\<close>, \<^verbatim>\<open>pmax\<close> and \<^verbatim>\<open>n_periods\<close> of \<^verbatim>\<open>wavelet\<close>
  have no effect: for any two assignments of them the run is the same, calls and
  outcome. When the function returns \<open>(wa, periods, gwps, wps)\<close>, \<open>wa\<close> is the
  \<^verbatim>\<open>WaveletAnalysis\<close> of \<open>x\<close> and \<open>t\<close> with time step \<open>float(median(diff(t)))\<close>,
  \<^verbatim>\<open>mask_coi=True\<close> and \<^verbatim>\<open>unbias=True\<close>, and the other three components are its
  Fourier periods, global wavelet spectrum and wavelet power.
\<close>

theorem wavelet_ignores_period_arguments:
  "wavelet np lib t x pmin pmax n_periods = wavelet np lib t x pmin' pmax' n_periods' \<and>
   (\<forall>wa periods gwps wps.
      snd (wavelet np lib t x pmin pmax n_periods) = Inr (wa, periods, gwps, wps) \<longrightarrow>
      (\<exists>d m dt. np_diff np t = Inr d \<and> np_median np d = Inr m \<and> py_float np m = Inr dt \<and>
         WaveletAnalysis lib x t [Dt dt, Mask_coi True, Unbias True] = Inr wa) \<and>
      fourier_periods lib wa = Inr periods \<and>
      wavelet_power lib wa = Inr wps \<and>
      global_wavelet_spectrum lib wa = Inr gwps)"
proof (intro conjI allI impI)
  show "wavelet np lib t x pmin pmax n_periods = wavelet np lib t x pmin' pmax' n_periods'"
    by (simp add: wavelet_def)
next
  fix wa periods gwps wps
  assume "snd (wavelet np lib t x pmin pmax n_periods) = Inr (wa, periods, gwps, wps)"
  then have r: "(\<exists>dt. median_diff np t = Inr dt \<and>
        WaveletAnalysis lib x t [Dt dt, Mask_coi True, Unbias True] = Inr wa) \<and>
      fourier_periods lib wa = Inr periods \<and>
      wavelet_power lib wa = Inr wps \<and>
      global_wavelet_spectrum lib wa = Inr gwps"
    by (simp add: wavelet_returns)
  then show "\<exists>d m dt. np_diff np t = Inr d \<and> np_median np d = Inr m \<and>
      py_float np m = Inr dt \<and>
      WaveletAnalysis lib x t [Dt dt, Mask_coi True, Unbias True] = Inr wa"
    by (auto simp: median_diff_returns)
  from r show "fourier_periods lib wa = Inr periods" and "wavelet_power lib wa = Inr wps"
    and "global_wavelet_spectrum lib wa = Inr gwps"
    by simp_all
qed

theorem wavelet_ignores_period_arguments_witness:
  "wavelet numpy_1d stub_wavelets (F64Array [Finite 0, Finite 1, Finite 2, Finite 3])
     (F64Array [Finite 1, Finite 0, Finite 1, Finite 0]) (Finite 0) None 1000 =
   wavelet numpy_1d stub_wavelets (F64Array [Finite 0, Finite 1, Finite 2, Finite 3])
     (F64Array [Finite 1, Finite 0, Finite 1, Finite 0]) (Finite 3) (Some (Finite 7)) 5 \<and>
   snd (wavelet numpy_1d stub_wavelets (F64Array [Finite 0, Finite 1, Finite 2, Finite 3])
     (F64Array [Finite 1, Finite 0, Finite 1, Finite 0]) (Finite 0) None 1000) =
     Inr ((F64Array [Finite 1, Finite 0, Finite 1, Finite 0],
           F64Array [Finite 0, Finite 1, Finite 2, Finite 3],
           [Dt (Finite 1), Mask_coi True, Unbias True]),
          F64Array [Finite 2, Finite 4, Finite 8],
          F64Array [Finite 1, Finite 1, Finite 2],
          F64Array [Finite 1, Finite 0, Finite 1]) \<and>
   fourier_periods stub_wavelets
     (F64Array [Finite 1, Finite 0, Finite 1, Finite 0],
      F64Array [Finite 0, Finite 1, Finite 2, Finite 3],
      [Dt (Finite 1), Mask_coi True, Unbias True]) = Inr (F64Array [Finite 2, Finite 4, Finite 8])"
proof -
  have run: "snd (wavelet numpy_1d stub_wavelets (F64Array [Finite 0, Finite 1, Finite 2, Finite 3])
     (F64Array [Finite 1, Finite 0, Finite 1, Finite 0]) (Finite 0) None 1000) =
     Inr ((F64Array [Finite 1, Finite 0, Finite 1, Finite 0],
           F64Array [Finite 0, Finite 1, Finite 2, Finite 3],
           [Dt (Finite 1), Mask_coi True, Unbias True]),
          F64Array [Finite 2, Finite 4, Finite 8],
          F64Array [Finite 1, Finite 1, Finite 2],
          F64Array [Finite 1, Finite 0, Finite 1])"
    by (simp add: wavelet_run Let_def stub_wavelets_def median_diff_def numpy_1d_def
        f64_sub_def median_f64_def f64_le_def)
  note th = wavelet_ignores_period_arguments[where np = numpy_1d and lib = stub_wavelets
      and t = "F64Array [Finite 0, Finite 1, Finite 2, Finite 3]"
      and x = "F64Array [Finite 1, Finite 0, Finite 1, Finite 0]"
      and pmin = "Finite 0" and pmax = None and n_periods = 1000
      and pmin' = "Finite 3" and pmax' = "Some (Finite 7)" and n_periods' = 5]
  from th[THEN conjunct2, rule_format, OF run]
  have "fourier_periods stub_wavelets
     (F64Array [Finite 1, Finite 0, Finite 1, Finite 0],
      F64Array [Finite 0, Finite 1, Finite 2, Finite 3],
      [Dt (Finite 1), Mask_coi True, Unbias True]) = Inr (F64Array [Finite 2, Finite 4, Finite 8])"
    by (rule conjunct2[THEN conjunct1])
  with th[THEN conjunct1] run show ?thesis
    by (intro conjI)
qed

end
